theory Spec2Isabelle
  imports Complex_Main
begin

section \<open>JavaScript numbers\<close>

text \<open>
  The agents compute with JavaScript \<open>number\<close>s, the binary64 values of IEEE 754. A
  number is modelled as a finite value, given by the real number it denotes, or one of
  the three special values. Every real is admitted as a finite value, the binary64
  values among them: what is proved for every number holds for every number that can
  reach the code. There is one zero: the sign of a zero is not modelled (a negative zero
  compares and prints as zero, and would only change the sign of a quotient by zero).
\<close>

datatype number = Fin real | PInf | NInf | NaN

subsection \<open>Rounding to binary64\<close>

text \<open>
  Every arithmetic operation returns the binary64 value nearest to the exact result, a
  tie going to the value with the even significand. The values with binary exponent
  \<open>e\<close> (those \<open>x\<close> with \<open>2^e \<le> |x| < 2^(e+1)\<close>) are the multiples of \<open>2^(e-52)\<close>; below
  \<open>2^-1022\<close> (the subnormal range) they are the multiples of \<open>2^-1074\<close>. A result that
  rounds to \<open>2^1024\<close> or beyond overflows to an infinity.
\<close>

definition pow2 :: "int \<Rightarrow> real" where
  "pow2 e = (if 0 \<le> e then 2 ^ nat e else 1 / 2 ^ nat (- e))"

text \<open>
  The binary exponent of a positive real, between -1022 and 1024, found by stepping up
  or down from 0.
\<close>

function up :: "int \<Rightarrow> real \<Rightarrow> int" where
  "up e x = (if e < 1024 \<and> 2 * pow2 e \<le> x then up (e + 1) x else e)"
  by pat_completeness auto
termination by (relation "measure (\<lambda>(e, x). nat (1024 - e))") auto

function down :: "int \<Rightarrow> real \<Rightarrow> int" where
  "down e x = (if - 1022 < e \<and> x < pow2 e then down (e - 1) x else e)"
  by pat_completeness auto
termination by (relation "measure (\<lambda>(e, x). nat (e + 1022))") auto

declare up.simps [simp del] down.simps [simp del]

definition exponent :: "real \<Rightarrow> int" where
  "exponent x = (if 1 \<le> x then up 0 x else down 0 x)"

text \<open>The nearest integer, a tie going to the even one.\<close>

definition roundEven :: "real \<Rightarrow> int" where
  "roundEven q =
     (let f = \<lfloor>q\<rfloor>; d = q - of_int f in
      if d < 1 / 2 then f else if 1 / 2 < d then f + 1 else if even f then f else f + 1)"

text \<open>\<open>fl x\<close> is the number that an operation with the exact result \<open>x\<close> returns.\<close>

definition fl :: "real \<Rightarrow> number" where
  "fl x =
     (if x = 0 then Fin 0
      else
        let ulp = pow2 (exponent \<bar>x\<bar> - 52);
            r = of_int (roundEven (x / ulp)) * ulp in
        if pow2 1024 \<le> \<bar>r\<bar> then (if 0 < x then PInf else NInf) else Fin r)"

text \<open>
  A decimal literal of the source denotes the binary64 value nearest to it: \<open>dbl 0.2\<close> is
  the number that the literal \<open>0.2\<close> denotes. A literal that is a binary64 value itself
  (an integer, \<open>0.25\<close>, \<open>0.5\<close>, \<open>0.375\<close>) is written \<open>Fin\<close>.
\<close>

definition dbl :: "real \<Rightarrow> number" where
  "dbl x = fl x"

text \<open>The unit roundoff: half the distance from 1 to the next binary64 value.\<close>

definition eps :: real where
  "eps = 1 / 2 ^ 53"

subsection \<open>Arithmetic and comparison\<close>

text \<open>
  The special values follow IEEE 754: \<open>NaN\<close> is absorbing and compares false with
  everything, a non-zero finite value divided by zero is an infinity, \<open>0 / 0\<close>,
  \<open>0 * Infinity\<close> and \<open>Infinity - Infinity\<close> are \<open>NaN\<close>.
\<close>

fun num_neg :: "number \<Rightarrow> number" where
  "num_neg (Fin x) = Fin (- x)"
| "num_neg PInf = NInf"
| "num_neg NInf = PInf"
| "num_neg NaN = NaN"

fun num_add :: "number \<Rightarrow> number \<Rightarrow> number" where
  "num_add (Fin x) (Fin y) = fl (x + y)"
| "num_add (Fin x) PInf = PInf"
| "num_add (Fin x) NInf = NInf"
| "num_add PInf (Fin y) = PInf"
| "num_add PInf PInf = PInf"
| "num_add PInf NInf = NaN"
| "num_add NInf (Fin y) = NInf"
| "num_add NInf NInf = NInf"
| "num_add NInf PInf = NaN"
| "num_add NaN y = NaN"
| "num_add x NaN = NaN"

definition num_sub :: "number \<Rightarrow> number \<Rightarrow> number" where
  "num_sub x y = num_add x (num_neg y)"

fun num_mul :: "number \<Rightarrow> number \<Rightarrow> number" where
  "num_mul (Fin x) (Fin y) = fl (x * y)"
| "num_mul (Fin x) PInf = (if x = 0 then NaN else if 0 < x then PInf else NInf)"
| "num_mul (Fin x) NInf = (if x = 0 then NaN else if 0 < x then NInf else PInf)"
| "num_mul PInf (Fin y) = (if y = 0 then NaN else if 0 < y then PInf else NInf)"
| "num_mul NInf (Fin y) = (if y = 0 then NaN else if 0 < y then NInf else PInf)"
| "num_mul PInf PInf = PInf"
| "num_mul PInf NInf = NInf"
| "num_mul NInf PInf = NInf"
| "num_mul NInf NInf = PInf"
| "num_mul NaN y = NaN"
| "num_mul x NaN = NaN"

fun num_div :: "number \<Rightarrow> number \<Rightarrow> number" where
  "num_div (Fin x) (Fin y) =
     (if y = 0 then (if x = 0 then NaN else if 0 < x then PInf else NInf)
      else fl (x / y))"
| "num_div (Fin x) PInf = Fin 0"
| "num_div (Fin x) NInf = Fin 0"
| "num_div PInf (Fin y) = (if 0 \<le> y then PInf else NInf)"
| "num_div NInf (Fin y) = (if 0 \<le> y then NInf else PInf)"
| "num_div PInf PInf = NaN"
| "num_div PInf NInf = NaN"
| "num_div NInf PInf = NaN"
| "num_div NInf NInf = NaN"
| "num_div NaN y = NaN"
| "num_div x NaN = NaN"

text \<open>The comparisons \<open>x < y\<close>, \<open>x > y\<close> and \<open>x <= y\<close> of JavaScript.\<close>

fun num_lt :: "number \<Rightarrow> number \<Rightarrow> bool" where
  "num_lt (Fin x) (Fin y) = (x < y)"
| "num_lt (Fin x) PInf = True"
| "num_lt NInf (Fin y) = True"
| "num_lt NInf PInf = True"
| "num_lt x y = False"

definition num_gt :: "number \<Rightarrow> number \<Rightarrow> bool" where
  "num_gt x y = num_lt y x"

definition num_le :: "number \<Rightarrow> number \<Rightarrow> bool" where
  "num_le x y = (x \<noteq> NaN \<and> y \<noteq> NaN \<and> \<not> num_lt y x)"

fun Math_abs :: "number \<Rightarrow> number" where
  "Math_abs (Fin x) = Fin \<bar>x\<bar>"
| "Math_abs PInf = PInf"
| "Math_abs NInf = PInf"
| "Math_abs NaN = NaN"

definition Math_min :: "number \<Rightarrow> number \<Rightarrow> number" where
  "Math_min x y = (if x = NaN \<or> y = NaN then NaN else if num_lt y x then y else x)"

definition Math_max :: "number \<Rightarrow> number \<Rightarrow> number" where
  "Math_max x y = (if x = NaN \<or> y = NaN then NaN else if num_lt x y then y else x)"

text \<open>\<open>Math.round\<close> rounds to the nearest integer, a half towards \<open>+Infinity\<close>.\<close>

fun Math_round :: "number \<Rightarrow> number" where
  "Math_round (Fin x) = Fin (of_int \<lfloor>x + 1 / 2\<rfloor>)"
| "Math_round x = x"

text \<open>
  Truthiness of a number, and \<open>v || d\<close> for a value \<open>v\<close> that is a number or
  \<open>undefined\<close> (\<open>None\<close>): \<open>undefined\<close>, \<open>0\<close> and \<open>NaN\<close> are falsy.
\<close>

definition truthy :: "number \<Rightarrow> bool" where
  "truthy x = (x \<noteq> NaN \<and> x \<noteq> Fin 0)"

fun num_or :: "number option \<Rightarrow> number \<Rightarrow> number" where
  "num_or None d = d"
| "num_or (Some x) d = (if truthy x then x else d)"

section \<open>The data model\<close>

text \<open>
  An allocation plan, as the object literals of \<open>calculateAllocations\<close> build it: three
  buckets, each with a \<open>total\<close> and its per-symbol sub-weights, and the optional
  \<open>note\<close> that \<open>generateAdjustedAllocations\<close> adds.
\<close>

record IncomePie =
  total :: number
  FEPI :: number
  SDTY :: number
  QQQY :: number

record ShortTermTreasury =
  total :: number
  SHY :: number

record TreasuryETF =
  total :: number
  EDV :: number

record Allocations =
  incomePie :: IncomePie
  shortTermTreasury :: ShortTermTreasury
  treasuryETF :: TreasuryETF
  note' :: "string option"

text \<open>
  The inputs are typed \<open>any\<close> in the source; they are read as follows. Every field of
  \<open>positionLimits\<close> is a number or missing, and \<open>positionLimits\<close> itself may be
  missing. \<open>actualAllocations\<close> may be missing, and so may its \<open>holdings\<close> and its
  \<open>limitExceeded\<close>; the flags of \<open>limitExceeded\<close> are only tested for truthiness.
\<close>

record PositionLimits =
  maxSingleOptionETF :: "number option"
  maxCombinedOptionETFs :: "number option"
  idealIncomePieAllocation :: "number option"

record Holding =
  symbol :: string
  allocation :: number

record LimitExceeded =
  individualPositions :: bool
  combinedOptionETFs :: bool

record ActualAllocations =
  holdings :: "Holding list option"
  limitExceeded :: "LimitExceeded option"

section \<open>The allocation calculator\<close>

text \<open>The sum that \<open>normalizeAllocations\<close> computes first, \<open>totalAllocation\<close>.\<close>

definition totalAllocation :: "Allocations \<Rightarrow> number" where
  "totalAllocation allocations =
     num_add (num_add (IncomePie.total (incomePie allocations))
                      (ShortTermTreasury.total (shortTermTreasury allocations)))
             (TreasuryETF.total (treasuryETF allocations))"

text \<open>
  \<open>normalizeAllocations\<close> mutates its argument; the model returns the object after the
  call. Every caller passes an object it has just built.
\<close>

definition normalizeAllocations :: "Allocations \<Rightarrow> Allocations" where
  "normalizeAllocations allocations =
     (if num_gt (Math_abs (num_sub (totalAllocation allocations) (Fin 1))) (dbl 0.001)
      then
        let normalizationFactor = num_div (Fin 1) (totalAllocation allocations) in
        allocations
          \<lparr> incomePie := (incomePie allocations)
               \<lparr> IncomePie.total :=
                   num_mul (IncomePie.total (incomePie allocations)) normalizationFactor \<rparr>,
            shortTermTreasury := (shortTermTreasury allocations)
               \<lparr> ShortTermTreasury.total :=
                   num_mul (ShortTermTreasury.total (shortTermTreasury allocations))
                           normalizationFactor \<rparr>,
            treasuryETF := (treasuryETF allocations)
               \<lparr> TreasuryETF.total :=
                   num_mul (TreasuryETF.total (treasuryETF allocations))
                           normalizationFactor \<rparr> \<rparr>
      else allocations)"

text \<open>The three symbol lists of \<open>calculateAllocations\<close>.\<close>

definition optionETFSymbols :: "string list" where
  "optionETFSymbols = [''FEPI'', ''QQQY'', ''SDTY'']"

definition shortTermSymbols :: "string list" where
  "shortTermSymbols = [''SHY'']"

definition treasurySymbols :: "string list" where
  "treasurySymbols = [''EDV'']"

text \<open>
  The body of the \<open>forEach\<close> over the holdings: the state is the triple of
  \<open>currentOptionETFAllocation\<close>, \<open>currentShortTermAllocation\<close> and
  \<open>currentTreasuryAllocation\<close>.
\<close>

definition addHolding :: "number \<times> number \<times> number \<Rightarrow> Holding \<Rightarrow> number \<times> number \<times> number" where
  "addHolding cur holding =
     (case cur of (curOption, curShort, curTreasury) \<Rightarrow>
        if Holding.symbol holding \<in> set optionETFSymbols
        then (num_add curOption (allocation holding), curShort, curTreasury)
        else if Holding.symbol holding \<in> set shortTermSymbols
        then (curOption, num_add curShort (allocation holding), curTreasury)
        else if Holding.symbol holding \<in> set treasurySymbols
        then (curOption, curShort, num_add curTreasury (allocation holding))
        else (curOption, curShort, curTreasury))"

definition currentAllocations :: "ActualAllocations option \<Rightarrow> number \<times> number \<times> number" where
  "currentAllocations actualAllocations =
     (case Option.bind actualAllocations holdings of
        None \<Rightarrow> (Fin 0, Fin 0, Fin 0)
      | Some hs \<Rightarrow>
          if length hs > 0 then foldl addHolding (Fin 0, Fin 0, Fin 0) hs
          else (Fin 0, Fin 0, Fin 0))"

text \<open>The four object literals of \<open>calculateAllocations\<close>, before normalisation.\<close>

definition baseAllocations :: "number \<times> number \<times> number \<Rightarrow> number \<Rightarrow> number \<Rightarrow> Allocations" where
  "baseAllocations cur idealIncomePie maxCombined =
     (case cur of (curOption, curShort, curTreasury) \<Rightarrow>
       \<lparr> incomePie =
           \<lparr> IncomePie.total =
               (if num_gt curOption (Fin 0) then curOption
                else Math_min idealIncomePie maxCombined),
             FEPI = dbl 0.35, SDTY = dbl 0.35, QQQY = dbl 0.30 \<rparr>,
         shortTermTreasury =
           \<lparr> ShortTermTreasury.total =
               (if num_gt curShort (Fin 0) then curShort else dbl 0.2),
             SHY = Fin 1 \<rparr>,
         treasuryETF =
           \<lparr> TreasuryETF.total =
               (if num_gt curTreasury (Fin 0) then curTreasury else dbl 0.2),
             EDV = Fin 1 \<rparr>,
         note' = None \<rparr>)"

definition highVixAllocations :: "number \<Rightarrow> Allocations" where
  "highVixAllocations maxCombined =
     \<lparr> incomePie =
         \<lparr> IncomePie.total = maxCombined,
           FEPI = dbl 0.40, SDTY = dbl 0.35, QQQY = Fin 0.25 \<rparr>,
       shortTermTreasury =
         \<lparr> ShortTermTreasury.total = num_mul (num_sub (Fin 1) maxCombined) (Fin 0.5),
           SHY = Fin 1 \<rparr>,
       treasuryETF =
         \<lparr> TreasuryETF.total = num_mul (num_sub (Fin 1) maxCombined) (Fin 0.5),
           EDV = Fin 1 \<rparr>,
       note' = None \<rparr>"

definition midVixAllocations :: "number \<Rightarrow> Allocations" where
  "midVixAllocations maxCombined =
     \<lparr> incomePie =
         \<lparr> IncomePie.total = num_add maxCombined (dbl 0.05),
           FEPI = dbl 0.40, SDTY = dbl 0.35, QQQY = Fin 0.25 \<rparr>,
       shortTermTreasury =
         \<lparr> ShortTermTreasury.total =
             num_mul (num_sub (Fin 1) (num_add maxCombined (dbl 0.05))) (Fin 0.5),
           SHY = Fin 1 \<rparr>,
       treasuryETF =
         \<lparr> TreasuryETF.total =
             num_mul (num_sub (Fin 1) (num_add maxCombined (dbl 0.05))) (Fin 0.5),
           EDV = Fin 1 \<rparr>,
       note' = None \<rparr>"

definition limitAllocations :: "number \<Rightarrow> Allocations" where
  \<comment> \<open>the local \<open>adjustedAllocations\<close> of \<open>calculateAllocations\<close>\<close>
  "limitAllocations maxCombined =
     \<lparr> incomePie =
         \<lparr> IncomePie.total = maxCombined,
           FEPI = dbl 0.35, SDTY = dbl 0.35, QQQY = dbl 0.30 \<rparr>,
       shortTermTreasury =
         \<lparr> ShortTermTreasury.total = num_mul (num_sub (Fin 1) maxCombined) (Fin 0.5),
           SHY = Fin 1 \<rparr>,
       treasuryETF =
         \<lparr> TreasuryETF.total = num_mul (num_sub (Fin 1) maxCombined) (Fin 0.5),
           EDV = Fin 1 \<rparr>,
       note' = None \<rparr>"

text \<open>
  \<open>actualAllocations?.limitExceeded?.combinedOptionETFs\<close>, tested for truthiness.
\<close>

definition exceedsCombined :: "ActualAllocations option \<Rightarrow> bool" where
  "exceedsCombined actualAllocations =
     (case Option.bind actualAllocations limitExceeded of
        None \<Rightarrow> False
      | Some le \<Rightarrow> combinedOptionETFs le)"

definition calculateAllocations ::
  "number \<Rightarrow> ActualAllocations option \<Rightarrow> PositionLimits option \<Rightarrow> Allocations" where
  "calculateAllocations vixLevel actualAllocations positionLimits =
     (let maxCombined = num_or (Option.bind positionLimits maxCombinedOptionETFs) (Fin 0.25);
          idealIncomePie = num_or (Option.bind positionLimits idealIncomePieAllocation) (dbl 0.60);
          base = normalizeAllocations
                   (baseAllocations (currentAllocations actualAllocations)
                      idealIncomePie maxCombined)
      in if num_gt vixLevel (Fin 30) then normalizeAllocations (highVixAllocations maxCombined)
         else if num_gt vixLevel (Fin 25) then normalizeAllocations (midVixAllocations maxCombined)
         else if exceedsCombined actualAllocations
              then normalizeAllocations (limitAllocations maxCombined)
         else base)"

text \<open>
  The object literal that \<open>calculateAllocations\<close> selects, as it is before the call of
  \<open>normalizeAllocations\<close> that precedes each \<open>return\<close>.
\<close>

definition presetAllocations ::
  "number \<Rightarrow> ActualAllocations option \<Rightarrow> PositionLimits option \<Rightarrow> Allocations" where
  "presetAllocations vixLevel actualAllocations positionLimits =
     (let maxCombined = num_or (Option.bind positionLimits maxCombinedOptionETFs) (Fin 0.25);
          idealIncomePie = num_or (Option.bind positionLimits idealIncomePieAllocation) (dbl 0.60)
      in if num_gt vixLevel (Fin 30) then highVixAllocations maxCombined
         else if num_gt vixLevel (Fin 25) then midVixAllocations maxCombined
         else if exceedsCombined actualAllocations then limitAllocations maxCombined
         else baseAllocations (currentAllocations actualAllocations) idealIncomePie maxCombined)"

text \<open>
  The second pass. It returns its argument when nothing exceeds a limit, and a new object
  otherwise.
\<close>

definition generateAdjustedAllocations :: "Allocations \<Rightarrow> PositionLimits option \<Rightarrow> Allocations" where
  "generateAdjustedAllocations allocations positionLimits =
     (let maxSingle = num_or (Option.bind positionLimits maxSingleOptionETF) (dbl 0.05);
          maxCombined = num_or (Option.bind positionLimits maxCombinedOptionETFs) (Fin 0.25);
          fepiAllocation = num_mul (IncomePie.total (incomePie allocations)) (FEPI (incomePie allocations));
          sdtyAllocation = num_mul (IncomePie.total (incomePie allocations)) (SDTY (incomePie allocations));
          qqqyAllocation = num_mul (IncomePie.total (incomePie allocations)) (QQQY (incomePie allocations));
          exceedsIndividualLimits =
            (num_gt fepiAllocation maxSingle \<or> num_gt sdtyAllocation maxSingle
             \<or> num_gt qqqyAllocation maxSingle)
      in if \<not> exceedsIndividualLimits \<and> num_le (IncomePie.total (incomePie allocations)) maxCombined
         then allocations
         else normalizeAllocations
           \<lparr> incomePie =
               \<lparr> IncomePie.total = Math_min (IncomePie.total (incomePie allocations)) maxCombined,
                 FEPI = dbl 0.33, SDTY = dbl 0.33, QQQY = dbl 0.34 \<rparr>,
             shortTermTreasury =
               \<lparr> ShortTermTreasury.total = ShortTermTreasury.total (shortTermTreasury allocations),
                 SHY = Fin 1 \<rparr>,
             treasuryETF =
               \<lparr> TreasuryETF.total = TreasuryETF.total (treasuryETF allocations),
                 EDV = Fin 1 \<rparr>,
             note' = Some ''Adjusted to respect position limits: 5% max per option ETF, 25% max combined'' \<rparr>)"

text \<open>
  The object that \<open>generateAdjustedAllocations\<close> builds when a limit is exceeded (its
  local \<open>adjustedAllocations\<close>), as it is before the call of \<open>normalizeAllocations\<close>.
\<close>

definition cappedAllocations :: "Allocations \<Rightarrow> PositionLimits option \<Rightarrow> Allocations" where
  "cappedAllocations allocations positionLimits =
     \<lparr> incomePie =
         \<lparr> IncomePie.total =
             Math_min (IncomePie.total (incomePie allocations))
               (num_or (Option.bind positionLimits maxCombinedOptionETFs) (Fin 0.25)),
           FEPI = dbl 0.33, SDTY = dbl 0.33, QQQY = dbl 0.34 \<rparr>,
       shortTermTreasury =
         \<lparr> ShortTermTreasury.total = ShortTermTreasury.total (shortTermTreasury allocations),
           SHY = Fin 1 \<rparr>,
       treasuryETF =
         \<lparr> TreasuryETF.total = TreasuryETF.total (treasuryETF allocations),
           EDV = Fin 1 \<rparr>,
       note' = Some ''Adjusted to respect position limits: 5% max per option ETF, 25% max combined'' \<rparr>"

section \<open>The summary agent: confidence and displayed percentages\<close>

text \<open>
  The object that \<open>calculateMarketMetrics\<close> returns. \<open>calculateStrategyConfidence\<close>
  reads only its \<open>marketTrend\<close>.
\<close>

record MarketMetrics =
  marketTrend :: string
  treasuryTrend :: string
  treasurySpread :: number
  marketSentiment :: string

definition calculateStrategyConfidence :: "number \<Rightarrow> number \<Rightarrow> MarketMetrics \<Rightarrow> number" where
  "calculateStrategyConfidence vixLevel sharpeRatio marketMetrics =
     (let confidence0 = dbl 0.7;
          confidence1 =
            (if num_gt vixLevel (Fin 30) then num_sub confidence0 (dbl 0.2)
             else if num_lt vixLevel (Fin 15) then num_add confidence0 (dbl 0.1)
             else confidence0);
          confidence2 =
            (if num_lt sharpeRatio (Fin (- 1)) then num_sub confidence1 (dbl 0.2)
             else if num_gt sharpeRatio (Fin 1) then num_add confidence1 (dbl 0.1)
             else confidence1);
          confidence3 =
            (if marketTrend marketMetrics = ''positive'' \<and> num_gt sharpeRatio (Fin 0)
             then num_add confidence2 (dbl 0.1)
             else if marketTrend marketMetrics = ''negative'' \<and> num_lt sharpeRatio (Fin 0)
             then num_add confidence2 (dbl 0.1)
             else num_sub confidence2 (dbl 0.1))
      in Math_max (Fin 0) (Math_min (Fin 1) confidence3))"

text \<open>
  The three percentages that \<open>generateStrategySummary\<close> prints, named as its local
  constants are.
\<close>

definition incomePiePercent :: "Allocations \<Rightarrow> number" where
  "incomePiePercent allocations =
     Math_round (num_mul (IncomePie.total (incomePie allocations)) (Fin 100))"

definition shortTermTreasuryPercent :: "Allocations \<Rightarrow> number" where
  "shortTermTreasuryPercent allocations =
     Math_round (num_mul (ShortTermTreasury.total (shortTermTreasury allocations)) (Fin 100))"

definition treasuryETFPercent :: "Allocations \<Rightarrow> number" where
  "treasuryETFPercent allocations =
     num_sub (num_sub (Fin 100) (incomePiePercent allocations)) (shortTermTreasuryPercent allocations)"

section \<open>Strings and number formatting\<close>

text \<open>
  A JavaScript string is modelled as a \<open>string\<close> of HOL, the list of its UTF-8 bytes; the
  emoji of the source's literals are written out as bytes. The agents concatenate
  strings, split them at line feeds, search them for ASCII words and change the case of
  letters; \<open>toLowerCase\<close> and \<open>toUpperCase\<close> are modelled on the ASCII letters and leave
  every other byte as it is.
\<close>

definition nl :: string where
  "nl = [CHR 0x0A]"

definition emoji_warning :: string where
  "emoji_warning = [CHR 0xE2, CHR 0x9A, CHR 0xA0, CHR 0xEF, CHR 0xB8, CHR 0x8F]"

definition emoji_chart :: string where
  "emoji_chart = [CHR 0xF0, CHR 0x9F, CHR 0x93, CHR 0x8A]"

definition emoji_check :: string where
  "emoji_check = [CHR 0xE2, CHR 0x9C, CHR 0x85]"

definition emoji_search :: string where
  "emoji_search = [CHR 0xF0, CHR 0x9F, CHR 0x94, CHR 0x8D]"

definition emoji_siren :: string where
  "emoji_siren = [CHR 0xF0, CHR 0x9F, CHR 0x9A, CHR 0xA8]"

definition toLowerCase :: "string \<Rightarrow> string" where
  "toLowerCase s =
     map (\<lambda>c. case map_of (zip ''ABCDEFGHIJKLMNOPQRSTUVWXYZ'' ''abcdefghijklmnopqrstuvwxyz'') c of
                 Some l \<Rightarrow> l | None \<Rightarrow> c) s"

definition toUpperCase :: "string \<Rightarrow> string" where
  "toUpperCase s =
     map (\<lambda>c. case map_of (zip ''abcdefghijklmnopqrstuvwxyz'' ''ABCDEFGHIJKLMNOPQRSTUVWXYZ'') c of
                 Some u \<Rightarrow> u | None \<Rightarrow> c) s"

text \<open>\<open>s.split(c)\<close> for a one-character separator: never the empty list.\<close>

fun split :: "char \<Rightarrow> string \<Rightarrow> string list" where
  "split c [] = [[]]"
| "split c (x # xs) =
     (if x = c then [] # split c xs
      else (case split c xs of [] \<Rightarrow> [[x]] | l # ls \<Rightarrow> (x # l) # ls))"

text \<open>\<open>xs.join(sep)\<close>.\<close>

fun join :: "string \<Rightarrow> string list \<Rightarrow> string" where
  "join sep [] = []"
| "join sep [x] = x"
| "join sep (x # y # ys) = x @ sep @ join sep (y # ys)"

text \<open>\<open>s.includes(pat)\<close>: \<open>pat\<close> occurs in \<open>s\<close> as a contiguous run.\<close>

fun includes_str :: "string \<Rightarrow> string \<Rightarrow> bool" where
  "includes_str [] pat = (pat = [])"
| "includes_str (c # cs) pat = (take (length pat) (c # cs) = pat \<or> includes_str cs pat)"

text \<open>\<open>a || d\<close> for a string or \<open>undefined\<close>: the empty string is falsy.\<close>

fun str_or :: "string option \<Rightarrow> string \<Rightarrow> string" where
  "str_or None d = d"
| "str_or (Some s) d = (if s = [] then d else s)"

text \<open>The decimal digits of a natural number.\<close>

function showNat :: "nat \<Rightarrow> string" where
  "showNat n =
     (if n < 10 then [''0123456789'' ! n]
      else showNat (n div 10) @ [''0123456789'' ! (n mod 10)])"
  by pat_completeness auto
termination
  by (relation "measure id") auto

declare showNat.simps [simp del]

text \<open>
  A number inside a template literal. The source only prints numbers that are integers
  or special values this way (results of \<open>Math.round\<close> and \<open>Math.floor\<close>, differences of
  such, list indices). The model prints every digit of the integer part; JavaScript
  switches to exponent notation from \<open>10^21\<close> on.
\<close>

fun num_toString :: "number \<Rightarrow> string" where
  "num_toString (Fin r) = (if r < 0 then ''-'' else []) @ showNat (nat \<lfloor>\<bar>r\<bar>\<rfloor>)"
| "num_toString PInf = ''Infinity''"
| "num_toString NInf = ''-Infinity''"
| "num_toString NaN = ''NaN''"

text \<open>
  \<open>x.toFixed(d)\<close>: the sign, then the integer nearest to \<open>|x| * 10^d\<close> (the larger of
  two nearest), printed with at least \<open>d + 1\<close> digits and a point before the last \<open>d\<close>.
  As for \<open>num_toString\<close>, the exponent notation from \<open>10^21\<close> on is not modelled.
\<close>

fun toFixed :: "nat \<Rightarrow> number \<Rightarrow> string" where
  "toFixed d (Fin r) =
     (let ds = showNat (nat \<lfloor>\<bar>r\<bar> * 10 ^ d + 1 / 2\<rfloor>);
          padded = replicate (Suc d - length ds) (CHR ''0'') @ ds
      in (if r < 0 then ''-'' else [])
         @ (if d = 0 then padded
            else take (length padded - d) padded @ ''.'' @ drop (length padded - d) padded))"
| "toFixed d PInf = ''Infinity''"
| "toFixed d NInf = ''-Infinity''"
| "toFixed d NaN = ''NaN''"

text \<open>\<open>Math.floor\<close>.\<close>

fun Math_floor :: "number \<Rightarrow> number" where
  "Math_floor (Fin x) = Fin (of_int \<lfloor>x\<rfloor>)"
| "Math_floor x = x"

text \<open>The only exception the agents can raise on the inputs modelled here.\<close>

datatype error = TypeError

section \<open>The report composer: the dominant action\<close>

text \<open>
  Modelled from the spec: the type of a recommendation (action, symbol, timeframe,
  conviction, rationale) is declared in \<open>./types\<close>, which is not among the sources. The
  record has the fields of the object literals in \<open>generateStrategyRecommendations\<close>;
  \<open>null\<close> is \<open>None\<close>.
\<close>

record Recommendation =
  action :: string
  symbol :: string
  timeframe :: string
  conviction :: number
  rationale :: string
  targetPrice :: "number option"
  stopLoss :: "number option"

text \<open>
  \<open>getRecommendation\<close>, a local function of \<open>generateReport\<close>. Its first \<open>reduce\<close> sums
  the convictions, its second one builds the object \<open>weightedAction\<close>.
\<close>

definition totalConviction :: "Recommendation list \<Rightarrow> number" where
  "totalConviction recs = foldl (\<lambda>sum rec. num_add sum (conviction rec)) (Fin 0) recs"

record WeightedAction =
  BUY :: number
  SELL :: number
  HOLD :: number

definition weightedAction :: "Recommendation list \<Rightarrow> WeightedAction" where
  "weightedAction recs =
     foldl (\<lambda>acc rec.
              let weight = num_div (conviction rec) (totalConviction recs) in
              \<lparr> BUY = num_add (BUY acc) (if action rec = ''BUY'' then weight else Fin 0),
                SELL = num_add (SELL acc) (if action rec = ''SELL'' then weight else Fin 0),
                HOLD = num_add (HOLD acc) (if action rec = ''HOLD'' then weight else Fin 0) \<rparr>)
           \<lparr> BUY = Fin 0, SELL = Fin 0, HOLD = Fin 0 \<rparr> recs"

text \<open>\<open>Object.entries\<close> lists the keys in the order the object literal has them.\<close>

definition entries :: "WeightedAction \<Rightarrow> (string \<times> number) list" where
  "entries w = [(''BUY'', BUY w), (''SELL'', SELL w), (''HOLD'', HOLD w)]"

text \<open>\<open>xs.reduce(f)\<close> with no initial value raises a TypeError on an empty array.\<close>

fun reduce1 :: "('a \<Rightarrow> 'a \<Rightarrow> 'a) \<Rightarrow> 'a list \<Rightarrow> error + 'a" where
  "reduce1 f [] = Inl TypeError"
| "reduce1 f (x # xs) = Inr (foldl f x xs)"

text \<open>The constant \<open>action\<close> of \<open>getRecommendation\<close>: the dominant action.\<close>

definition dominantAction :: "Recommendation list \<Rightarrow> error + string" where
  "dominantAction recs =
     (case reduce1 (\<lambda>a b. if num_gt (snd a) (snd b) then a else b) (entries (weightedAction recs)) of
        Inl e \<Rightarrow> Inl e
      | Inr a \<Rightarrow> Inr (fst a))"

definition getRecommendation :: "Recommendation list \<Rightarrow> error + string" where
  "getRecommendation recs =
     (case dominantAction recs of
        Inl e \<Rightarrow> Inl e
      | Inr act \<Rightarrow>
          let conv = Math_round
                (num_div (foldl (\<lambda>sum rec. num_add sum (if action rec = act then conviction rec else Fin 0))
                                (Fin 0) recs)
                         (Fin (real (length (filter (\<lambda>rec. action rec = act) recs)))))
          in Inr (act @ '' (Conviction: '' @ num_toString conv @ ''/10)''))"

section \<open>The summary agent\<close>

text \<open>
  Modelled from the spec: the type declarations of \<open>./types\<close> (\<open>AgentInput\<close>,
  \<open>AgentOutput\<close>, \<open>AnalysisReport\<close>) are not among the sources. The records follow the
  data model of the specification (the portfolio snapshot: VIX level and trend, risk
  level, Sharpe ratio, holdings, rotation signals with type, symbol, urgency and reason,
  position limits) and carry the fields that \<open>analyze\<close> and \<open>generateReport\<close> read.
  The fields that the code guards against being \<open>undefined\<close> somewhere are optional:
  \<open>positionLimits\<close>, \<open>actualAllocations\<close>, the \<open>rotationSignals\<close> and the \<open>holdings\<close>
  of the portfolio state, and the \<open>fromSymbol\<close> of a rotation signal. Every other field
  has a value of its type.
\<close>

record MarketCondition =
  vix :: number
  vixTrend :: string
  riskLevel :: string
  tenYearYield :: number
  twoYearYield :: number

record PortfolioMetrics =
  sharpeRatio :: number
  totalYield :: number

record RotationSignal =
  type :: string
  symbol :: string
  urgency :: string
  reason :: string
  fromSymbol :: "string option"

record PortfolioHolding =
  symbol :: string
  weeklyPerformance :: number
  navErosion :: number

record PortfolioState =
  marketCondition :: MarketCondition
  metrics :: PortfolioMetrics
  rotationSignals :: "RotationSignal list option"
  holdings :: "PortfolioHolding list option"

record StockData =
  close :: number

record AgentInput =
  portfolioState :: PortfolioState
  actualAllocations :: "ActualAllocations option"
  positionLimits :: "PositionLimits option"
  symbol :: string
  stockData :: "StockData list"

text \<open>
  Modelled from the spec: the output of an agent (summary text, detailed analysis text,
  confidence score, list of recommendations, list of risk strings, metrics mapping). Its
  \<open>metrics\<close> is a \<open>Record<string, unknown>\<close> in the source; the model gives it the
  keys that \<open>analyze\<close> writes and \<open>generateReport\<close> reads, each holding a value of the
  expected type or missing. The two flags are only tested for truthiness.
\<close>

record Metrics =
  vixLevel :: "number option"
  vixTrend :: "string option"
  riskLevel :: "string option"
  sharpeRatio :: "number option"
  actualAllocations :: "ActualAllocations option"
  recommendedAllocations :: "Allocations option"
  rotationSignals :: "RotationSignal list option"
  exceedsPositionLimits :: bool
  exceedsCombinedLimits :: bool
  supportLevels :: "number list option"
  resistanceLevels :: "number list option"

record AgentOutput =
  summary :: string
  analysis :: string
  confidence :: number
  recommendations :: "Recommendation list"
  metrics :: Metrics
  risks :: "string list"

definition calculateMarketMetrics :: "AgentInput \<Rightarrow> MarketMetrics" where
  "calculateMarketMetrics input =
     (let ps = portfolioState input; mc = marketCondition ps in
      \<lparr> marketTrend =
          (if num_gt (PortfolioMetrics.sharpeRatio (PortfolioState.metrics ps)) (Fin 0)
           then ''positive'' else ''negative''),
        treasuryTrend =
          (if num_gt (tenYearYield mc) (twoYearYield mc) then ''positive'' else ''negative''),
        treasurySpread = num_sub (tenYearYield mc) (twoYearYield mc),
        marketSentiment = MarketCondition.riskLevel mc \<rparr>)"

definition getVixStatusSummary :: "number \<Rightarrow> string" where
  "getVixStatusSummary v =
     (if num_gt v (Fin 30) then
        emoji_warning @ '' HIGH RISK ALERT: VIX above 30 - Implement maximum defensive positioning''
      else if num_gt v (Fin 25) then
        emoji_warning @ '' ELEVATED RISK: VIX above 25 - Reduce option ETF exposure''
      else if num_gt v (Fin 20) then
        emoji_chart @ '' MONITOR: VIX above 20 - Enhanced monitoring required''
      else
        emoji_check @ '' NORMAL: VIX below 20 - Maintain standard allocations'')"

definition generateStrategySummary ::
  "number \<Rightarrow> MarketMetrics \<Rightarrow> Allocations \<Rightarrow> bool \<Rightarrow> bool \<Rightarrow> string" where
  "generateStrategySummary v mm allocations exceedsPosition exceedsCombinedFlag =
     (let positionWarning =
            (if exceedsPosition \<or> exceedsCombinedFlag then
               nl @
               emoji_warning @
               '' POSITION LIMIT ALERT: Current allocations exceed recommended limits. Adjustments needed.''
             else [])
      in
      ''M1 Portfolio Strategy Analysis'' @ nl @ nl @
      ''Current market conditions indicate a '' @ marketTrend mm @ '' trend with VIX at '' @
      toFixed 2 v @ ''. Based on our strategic rotation system:'' @ nl @ nl @
      getVixStatusSummary v @ positionWarning @ nl @ nl @
      ''Recommended Portfolio Allocation:'' @ nl @
      ''- Income Factory: '' @ num_toString (incomePiePercent allocations) @ ''%'' @ nl @
      ''- Short-Term Treasury: '' @ num_toString (shortTermTreasuryPercent allocations) @
      ''%'' @ nl @
      ''- Treasury ETF: '' @ num_toString (treasuryETFPercent allocations) @ ''%'')"

text \<open>The constant object \<open>VIX_THRESHOLDS\<close> of \<open>generateDetailedAnalysis\<close>.\<close>

record VixThresholds =
  MONITOR :: number
  FIRST_REDUCTION :: number
  SECOND_REDUCTION :: number

definition VIX_THRESHOLDS :: VixThresholds where
  "VIX_THRESHOLDS = \<lparr> MONITOR = Fin 20, FIRST_REDUCTION = Fin 25, SECOND_REDUCTION = Fin 30 \<rparr>"

definition getVixAnalysis :: "number \<Rightarrow> VixThresholds \<Rightarrow> string" where
  "getVixAnalysis v th =
     (if num_gt v (SECOND_REDUCTION th) then
        emoji_siren @ '' CRITICAL: VIX ('' @ toFixed 2 v @ '') exceeds '' @
        num_toString (SECOND_REDUCTION th) @ nl @
        ''- Reduce option ETF exposure to 25% of original position'' @ nl @
        ''- Increase Treasury allocations significantly'' @ nl @
        ''- Implement strict risk controls''
      else if num_gt v (FIRST_REDUCTION th) then
        emoji_warning @ '' WARNING: VIX ('' @ toFixed 2 v @ '') exceeds '' @
        num_toString (FIRST_REDUCTION th) @ nl @
        ''- Reduce option ETF exposure by 25%'' @ nl @
        ''- Increase Treasury allocations moderately'' @ nl @
        ''- Enhanced monitoring required''
      else if num_gt v (MONITOR th) then
        emoji_chart @ '' MONITOR: VIX ('' @ toFixed 2 v @ '') exceeds '' @
        num_toString (MONITOR th) @ nl @
        ''- Maintain current positions'' @ nl @
        ''- Prepare for potential adjustments'' @ nl @
        ''- Increase monitoring frequency''
      else
        emoji_check @ '' NORMAL: VIX ('' @ toFixed 2 v @ '') below '' @
        num_toString (MONITOR th) @ nl @
        ''- Maintain standard allocations'' @ nl @
        ''- Regular monitoring sufficient'' @ nl @
        ''- Focus on yield optimization'')"

text \<open>
  \<open>getImplementationStrategy\<close> reads \<open>portfolioState.rotationSignals.length\<close> with no
  guard: on a missing list it raises a TypeError.
\<close>

definition getImplementationStrategy ::
  "number \<Rightarrow> MarketMetrics \<Rightarrow> PortfolioState \<Rightarrow> error + string" where
  "getImplementationStrategy v mm ps =
     (case PortfolioState.rotationSignals ps of
        None \<Rightarrow> Inl TypeError
      | Some signals \<Rightarrow>
          let positionLimitInstructions =
                (if length signals > 0 then
                   ''- Prioritize implementation of current rotation signals'' @ nl
                 else [])
          in Inr (
            ''### Implementation Priority'' @ nl @
            (if num_gt v (Fin 25) then emoji_siren @ '' HIGH PRIORITY - Execute adjustments within 1-2 trading days''
           else if num_gt v (Fin 20) then emoji_warning @ '' MEDIUM PRIORITY - Execute adjustments within 3-5 trading days''
           else emoji_check @ '' NORMAL PRIORITY - Regular rebalancing schedule'') @
            nl @ nl @
            ''### Execution Strategy'' @ nl @
            positionLimitInstructions @ ''1. '' @
            (if num_gt v (Fin 25) then ''Reduce option ETF exposure first'' else ''Monitor option ETF performance'') @
            nl @
            ''2. '' @
            (if num_gt v (Fin 25) then ''Increase Treasury positions second'' else ''Maintain Treasury allocations'') @
            nl @
            ''3. '' @
            (if num_gt v (Fin 25) then ''Review and adjust stop levels'' else ''Regular stop level monitoring'') @
            nl @ nl @
            ''### Position Sizing'' @ nl @
            ''- Option ETFs: '' @
            (if num_gt v (Fin 30) then ''Minimum'' else if num_gt v (Fin 25) then ''Reduced'' else ''Standard'') @
            '' position sizes'' @ nl @
            ''- Treasuries: '' @
            (if num_gt v (Fin 25) then ''Increased'' else ''Standard'') @ '' allocation''))"

definition getMonitoringChecklist :: string where
  "getMonitoringChecklist =
     ''### Daily Monitoring'' @ nl @
     ''- [ ] Check VIX level and trend'' @ nl @
     ''- [ ] Monitor option ETF price movements'' @ nl @
     ''- [ ] Review market news for volatility triggers'' @ nl @ nl @
     ''### Weekly Review'' @ nl @
     ''- [ ] Calculate 5-day VIX moving average'' @ nl @
     ''- [ ] Assess Treasury yield curve changes'' @ nl @
     ''- [ ] Review option ETF performance metrics'' @ nl @
     ''- [ ] Evaluate rotation signals'' @ nl @ nl @
     ''### Monthly Assessment'' @ nl @
     ''- [ ] Calculate 3-month rolling performance'' @ nl @
     ''- [ ] Evaluate NAV erosion metrics'' @ nl @
     ''- [ ] Update distribution yield calculations'' @ nl @
     ''- [ ] Review strategy effectiveness''"

definition generateDetailedAnalysis ::
  "number \<Rightarrow> MarketMetrics \<Rightarrow> Allocations \<Rightarrow> PortfolioState \<Rightarrow> error + string" where
  "generateDetailedAnalysis v mm allocations ps =
     (let positionLimitNotes =
            (case note' allocations of
               None \<Rightarrow> []
             | Some n \<Rightarrow>
                 if n = [] then []
                 else
                   nl @
                   ''## Position Limit Notes'' @ nl @
                   n)
      in case getImplementationStrategy v mm ps of
           Inl e \<Rightarrow> Inl e
         | Inr implementationStrategy \<Rightarrow> Inr (
            ''# Strategic Rotation System Analysis'' @ nl @ nl @
            ''## Market Environment'' @ nl @
            ''- VIX Level: '' @ toFixed 2 v @ nl @
            ''- Market Trend: '' @ toUpperCase (marketTrend mm) @ nl @
            ''- Treasury Spread: '' @ toFixed 2 (treasurySpread mm) @ ''%'' @ nl @
            ''- Risk Level: '' @ MarketCondition.riskLevel (marketCondition ps) @ nl @ nl @
            ''## VIX Threshold Analysis'' @ nl @
            emoji_search @ '' Current Status:'' @ nl @
            getVixAnalysis v VIX_THRESHOLDS @ nl @ nl @
            ''## Recommended Allocations'' @ nl @ nl @
            ''### Income Factory ('' @
            toFixed 0 (num_mul (IncomePie.total (incomePie allocations)) (Fin 100)) @
            ''% Total)'' @ nl @
            ''- FEPI: '' @
            toFixed 1 (num_mul (num_mul (FEPI (incomePie allocations)) (IncomePie.total (incomePie allocations))) (Fin 100)) @
            ''%'' @ nl @
            ''- SDTY: '' @
            toFixed 1 (num_mul (num_mul (SDTY (incomePie allocations)) (IncomePie.total (incomePie allocations))) (Fin 100)) @
            ''%'' @ nl @
            ''- QQQY: '' @
            toFixed 1 (num_mul (num_mul (QQQY (incomePie allocations)) (IncomePie.total (incomePie allocations))) (Fin 100)) @
            ''%'' @ nl @ nl @
            ''### Treasury Allocations'' @ nl @
            ''- SHY: '' @
            toFixed 1 (num_mul (ShortTermTreasury.total (shortTermTreasury allocations)) (Fin 100)) @
            ''%'' @ nl @
            ''- EDV: '' @
            toFixed 1 (num_mul (TreasuryETF.total (treasuryETF allocations)) (Fin 100)) @
            ''%'' @ positionLimitNotes @ nl @ nl @
            ''## Implementation Strategy'' @ nl @
            implementationStrategy @ nl @ nl @
            ''## Monitoring Checklist'' @ nl @
            getMonitoringChecklist))"

text \<open>One recommendation for each rotation signal, or one default recommendation.\<close>

definition signalRecommendation :: "RotationSignal \<Rightarrow> Recommendation" where
  "signalRecommendation signal =
     \<lparr> action = (if type signal = ''INCREASE'' then ''BUY''
                 else if type signal = ''REDUCE'' then ''SELL'' else ''HOLD''),
       symbol = RotationSignal.symbol signal,
       timeframe = (if urgency signal = ''HIGH'' then ''short-term'' else ''medium-term''),
       conviction = (if urgency signal = ''HIGH'' then Fin 8
                     else if urgency signal = ''MEDIUM'' then Fin 6 else Fin 4),
       rationale = reason signal,
       targetPrice = None,
       stopLoss = None \<rparr>"

definition generateStrategyRecommendations :: "PortfolioState \<Rightarrow> Recommendation list" where
  "generateStrategyRecommendations ps =
     (let v = vix (marketCondition ps);
          sharpe = PortfolioMetrics.sharpeRatio (PortfolioState.metrics ps);
          signals = (case PortfolioState.rotationSignals ps of None \<Rightarrow> [] | Some ss \<Rightarrow> ss)
      in if length signals > 0 then map signalRecommendation signals
         else if num_gt v (Fin 25) then
           [\<lparr> action = ''SELL'', symbol = ''OPTION_ETFS'', timeframe = ''short-term'',
              conviction = Fin 7,
              rationale =
                ''VIX above '' @ toFixed 2 v @ '' suggests elevated market risk'',
              targetPrice = None, stopLoss = None \<rparr>]
         else if num_lt sharpe (Fin (- 1)) then
           [\<lparr> action = ''SELL'', symbol = ''OPTION_ETFS'', timeframe = ''medium-term'',
              conviction = Fin 6,
              rationale =
                ''Negative Sharpe ratio ('' @ toFixed 2 sharpe @
                '') indicates poor risk-adjusted returns'',
              targetPrice = None, stopLoss = None \<rparr>]
         else
           [\<lparr> action = ''HOLD'', symbol = ''PORTFOLIO'', timeframe = ''medium-term'',
              conviction = Fin 5,
              rationale = ''Current market conditions remain stable'',
              targetPrice = None, stopLoss = None \<rparr>])"

text \<open>
  \<open>identifyStrategyRisks\<close> calls \<open>holdings.filter\<close> with no guard: on missing holdings
  it raises a TypeError.
\<close>

definition identifyStrategyRisks :: "PortfolioState \<Rightarrow> bool \<Rightarrow> error + string list" where
  "identifyStrategyRisks ps exceedsPosition =
     (let risks1 = (if num_gt (vix (marketCondition ps)) (Fin 25)
                    then [''Elevated market volatility increases downside risk'']
                    else []);
          risks2 = risks1 @
                   (if num_lt (PortfolioMetrics.sharpeRatio (PortfolioState.metrics ps)) (Fin 0)
                    then [''Negative risk-adjusted returns (Sharpe ratio)'']
                    else []);
          risks3 = risks2 @
                   (if exceedsPosition
                    then [''Position sizes exceed recommended limits, increasing concentration risk'']
                    else [])
      in case PortfolioState.holdings ps of
           None \<Rightarrow> Inl TypeError
         | Some hs \<Rightarrow>
             let optionETFs = filter (\<lambda>h. PortfolioHolding.symbol h \<in> set [''FEPI'', ''QQQY'', ''SDTY'']) hs;
                 poorPerformingETFs = filter (\<lambda>h. num_lt (weeklyPerformance h) (Fin (- 3))) optionETFs;
                 risks4 = risks3 @
                   (if length poorPerformingETFs > 0
                    then [''Weak option ETF performance may indicate continued pressure'']
                    else []);
                 highErosionETFs = filter (\<lambda>h. num_lt (navErosion h) (Fin (- 5))) optionETFs;
                 risks5 = risks4 @
                   (if length highErosionETFs > 0
                    then [''Significant NAV erosion detected in option ETFs'']
                    else []);
                 risks6 = risks5 @
                   (if num_lt (totalYield (PortfolioState.metrics ps)) (dbl 0.1)
                    then [''Portfolio yield below target threshold'']
                    else [])
             in Inr (if length risks6 = 0
                     then [''Weak trend strength may lead to false signals'']
                     else risks6))"

text \<open>
  \<open>analyze\<close>. The promise it returns is modelled by its outcome: the output it resolves
  to, or the exception it is rejected with.
\<close>

definition analyze :: "AgentInput \<Rightarrow> error + AgentOutput" where
  "analyze input =
     (let ps = portfolioState input;
          actual = AgentInput.actualAllocations input;
          limits = AgentInput.positionLimits input;
          v = vix (marketCondition ps);
          trend = MarketCondition.vixTrend (marketCondition ps);
          risk = MarketCondition.riskLevel (marketCondition ps);
          sharpe = PortfolioMetrics.sharpeRatio (PortfolioState.metrics ps);
          exceedsPosition =
            (case Option.bind actual limitExceeded of
               None \<Rightarrow> False | Some le \<Rightarrow> individualPositions le);
          exceedsCombinedFlag =
            (case Option.bind actual limitExceeded of
               None \<Rightarrow> False | Some le \<Rightarrow> combinedOptionETFs le);
          marketMetrics = calculateMarketMetrics input;
          allocations = calculateAllocations v actual limits;
          adjustedAllocations = generateAdjustedAllocations allocations limits;
          summaryText = generateStrategySummary v marketMetrics adjustedAllocations
                          exceedsPosition exceedsCombinedFlag
      in case generateDetailedAnalysis v marketMetrics adjustedAllocations ps of
           Inl e \<Rightarrow> Inl e
         | Inr analysisText \<Rightarrow>
             let recs = generateStrategyRecommendations ps;
                 conf = calculateStrategyConfidence v sharpe marketMetrics
             in case identifyStrategyRisks ps exceedsPosition of
                  Inl e \<Rightarrow> Inl e
                | Inr riskList \<Rightarrow>
                    Inr \<lparr> summary = summaryText,
                          analysis = analysisText,
                          confidence = conf,
                          recommendations = recs,
                          metrics =
                            \<lparr> vixLevel = Some v,
                              vixTrend = Some trend,
                              riskLevel = Some risk,
                              sharpeRatio = Some sharpe,
                              actualAllocations = actual,
                              recommendedAllocations = Some adjustedAllocations,
                              rotationSignals = PortfolioState.rotationSignals ps,
                              exceedsPositionLimits = exceedsPosition,
                              exceedsCombinedLimits = exceedsCombinedFlag,
                              supportLevels = None,
                              resistanceLevels = None \<rparr>,
                          risks = riskList \<rparr>)"

section \<open>The report composer\<close>

record PriceTargets =
  bullish :: number
  base :: number
  bearish :: number

text \<open>
  Modelled from the spec: the type \<open>AnalysisReport\<close> of \<open>./types\<close> is not among the
  sources. The record has the fields of the object that \<open>generateReport\<close> returns. Its
  \<open>timestamp\<close> is what \<open>Date.now()\<close> returns, a count of milliseconds.
\<close>

record AnalysisReport =
  symbol :: string
  timestamp :: nat
  fundamentalAnalysis :: AgentOutput
  technicalAnalysis :: AgentOutput
  sentimentAnalysis :: AgentOutput
  macroAnalysis :: AgentOutput
  finalRecommendation :: string
  confidence :: number
  risks :: "string list"
  supportLevels :: "number list"
  resistanceLevels :: "number list"
  priceTargets :: PriceTargets

definition generateStrategicAssessment :: "AgentOutput \<Rightarrow> string" where
  "generateStrategicAssessment macro =
     (let v = num_or (vixLevel (metrics macro)) (Fin 0);
          trend = str_or (Metrics.vixTrend (metrics macro)) ''NEUTRAL''
      in
      ''The market environment is currently showing '' @ toLowerCase (summary macro) @ nl @
      nl @
      ''With VIX at '' @ toFixed 2 v @ '' and '' @ toLowerCase trend @
      '' trend, your portfolio requires '' @
      (if num_gt v (Fin 25) then ''immediate attention'' else if num_gt v (Fin 20) then ''careful monitoring'' else ''standard oversight'') @
      ''.'' @ nl @ nl @
      join nl (take 3 (split (CHR 0x0A) (analysis macro))))"

text \<open>
  \<open>getRotationSignals\<close>: one sentence for each rotation signal of a known type. A
  missing \<open>fromSymbol\<close> prints as \<open>undefined\<close>.
\<close>

definition rotationSentence :: "RotationSignal \<Rightarrow> string" where
  "rotationSentence signal =
     (if type signal = ''INCREASE'' then
        ''Increase '' @ RotationSignal.symbol signal @ '' allocation because '' @
        toLowerCase (reason signal)
      else if type signal = ''REDUCE'' then
        ''Reduce '' @ RotationSignal.symbol signal @ '' allocation because '' @
        toLowerCase (reason signal)
      else if type signal = ''ROTATE'' then
        ''Rotate from '' @
        (case fromSymbol signal of None \<Rightarrow> ''undefined'' | Some f \<Rightarrow> f) @
        '' to '' @ RotationSignal.symbol signal @ '' because '' @
        toLowerCase (reason signal)
      else [])"

definition getRotationSignals :: "AgentOutput \<Rightarrow> string list" where
  "getRotationSignals macro =
     (let signals = (case Metrics.rotationSignals (metrics macro) of None \<Rightarrow> [] | Some ss \<Rightarrow> ss)
      in if length signals = 0 then []
         else filter (\<lambda>s. s \<noteq> []) (map rotationSentence signals))"

text \<open>The local constant \<open>defaultAllocations\<close> of \<open>generateActionPlan\<close>.\<close>

definition defaultAllocations :: Allocations where
  "defaultAllocations =
     \<lparr> incomePie = \<lparr> IncomePie.total = Fin 0.25, FEPI = dbl 0.33, SDTY = dbl 0.33, QQQY = dbl 0.34 \<rparr>,
       shortTermTreasury = \<lparr> ShortTermTreasury.total = Fin 0.375, SHY = Fin 1.0 \<rparr>,
       treasuryETF = \<lparr> TreasuryETF.total = Fin 0.375, EDV = Fin 1.0 \<rparr>,
       note' = None \<rparr>"

text \<open>
  \<open>generateActionPlan\<close> normalises the allocations it reads in place, with the
  statements of \<open>normalizeAllocations\<close> repeated inline. When the metrics hold
  recommended allocations, this changes the caller's object: the model returns the text
  together with the macro analysis as it is after the call.
\<close>

fun numbered :: "nat \<Rightarrow> string list \<Rightarrow> string list" where
  "numbered i [] = []"
| "numbered i (a # rest) = (num_toString (Fin (real (i + 1))) @ ''. '' @ a) # numbered (i + 1) rest"

text \<open>The statements of \<open>generateActionPlan\<close> that build \<open>priorityActions\<close>.\<close>

definition priorityActions :: "Allocations \<Rightarrow> number \<Rightarrow> string list \<Rightarrow> bool \<Rightarrow> bool \<Rightarrow> string list" where
  "priorityActions recommended v rotation exceedsPosition exceedsCombinedFlag =
     (let actions1 = (if num_gt v (Fin 25) then
                        [
                        ''Reduce option ETF exposure to '' @
                        toFixed 0 (num_mul (IncomePie.total (incomePie recommended)) (Fin 100)) @
                        ''% of portfolio due to elevated VIX ('' @ toFixed 2 v @ '').'']
                      else []);
          actions2 = actions1 @ (case rotation of [] \<Rightarrow> [] | r # rs \<Rightarrow> [r]);
          actions3 = actions2 @
                     (if exceedsPosition then
                        [''Rebalance individual option ETF positions to stay within 5% individual position limits.'']
                      else []);
          actions4 = actions3 @
                     (if exceedsCombinedFlag then
                        [''Reduce combined option ETF allocation to maximum 25% of portfolio.'']
                      else []);
          actions5 = actions4 @
                     (if length actions4 < 3 then
                        [''Monitor Treasury yield curve for rotation signals between income ETFs and Treasury ETFs.'']
                      else []);
          actions6 = actions5 @
                     (if length actions5 < 3 then
                        [''Review distribution schedules for upcoming payouts from income ETFs.'']
                      else [])
      in take 4 actions6)"

definition generateActionPlan :: "AgentOutput \<Rightarrow> string \<times> AgentOutput" where
  "generateActionPlan macro =
     (let recAllocations = recommendedAllocations (metrics macro);
          recommended = normalizeAllocations
                          (case recAllocations of None \<Rightarrow> defaultAllocations | Some a \<Rightarrow> a);
          macro' = (case recAllocations of
                      None \<Rightarrow> macro
                    | Some a \<Rightarrow> macro \<lparr> metrics := (metrics macro) \<lparr> recommendedAllocations := Some recommended \<rparr> \<rparr>);
          v = num_or (vixLevel (metrics macro)) (Fin 0);
          rotation = getRotationSignals macro
      in (join (nl @ nl)
            (numbered 0 (priorityActions recommended v rotation
                           (exceedsPositionLimits (metrics macro))
                           (exceedsCombinedLimits (metrics macro)))),
          macro'))"

definition generateMarketContext :: "AgentOutput \<Rightarrow> string" where
  "generateMarketContext technical =
     (let keyContext =
            take 3 (filter (\<lambda>line. includes_str line ''trend'' \<or> includes_str line ''momentum''
                                    \<or> includes_str line ''sentiment'' \<or> includes_str line ''support''
                                    \<or> includes_str line ''resistance'')
                           (split (CHR 0x0A) (analysis technical)))
      in if length keyContext = 0 then summary technical else join nl keyContext)"

definition generateRiskSnapshot ::
  "AgentOutput \<Rightarrow> AgentOutput \<Rightarrow> AgentOutput \<Rightarrow> AgentOutput \<Rightarrow> string" where
  "generateRiskSnapshot fundamental technical sentiment macro =
     (let allRisks = take 3 (AgentOutput.risks macro @ AgentOutput.risks technical
                             @ AgentOutput.risks fundamental @ AgentOutput.risks sentiment);
          v = num_or (vixLevel (metrics macro)) (Fin 0);
          mitigationStrategies =
            [
             ''For protection, '' @
             (if num_gt v (Fin 25) then ''increase Treasury allocations to at least 50% of portfolio''
               else ''maintain balanced exposure between option ETFs and Treasuries''),
             ''Set price alerts for VIX at '' @
             num_toString (num_add (Math_floor v) (Fin 5)) @
             '' to trigger defensive action if volatility increases'']
      in
      ''Key risks to watch: '' @
      join '', '' (map (\<lambda>risk. ''*'' @ risk @ ''*'') allRisks) @ nl @ nl @
      join (nl @ nl) mitigationStrategies)"

text \<open>The template literal of \<open>generateReport\<close> that builds \<open>finalRecommendation\<close>.\<close>

definition finalRecommendationText ::
  "string \<Rightarrow> string \<Rightarrow> string \<Rightarrow> string \<Rightarrow> string \<Rightarrow> string \<Rightarrow> string" where
  "finalRecommendationText symbolText summaryText strategicAssessment actionPlan marketContext riskSnapshot =
     ''# '' @ symbolText @ '' Analysis Summary'' @ nl @ nl @
     summaryText @ nl @ nl @
     ''## Strategic Assessment'' @ nl @ nl @
     strategicAssessment @ nl @ nl @
     ''## Action Plan'' @ nl @ nl @
     actionPlan @ nl @ nl @
     ''## Market Context'' @ nl @ nl @
     marketContext @ nl @ nl @
     ''## Risk Snapshot'' @ nl @ nl @
     riskSnapshot"

text \<open>
  \<open>xs[0]\<close> and \<open>xs[xs.length - 1]\<close>, each followed by a property read: on an empty
  array the element is \<open>undefined\<close> and the read raises a TypeError.
\<close>

definition firstOf :: "'a list \<Rightarrow> error + 'a" where
  "firstOf xs = (case xs of [] \<Rightarrow> Inl TypeError | x # rest \<Rightarrow> Inr x)"

definition lastOf :: "'a list \<Rightarrow> error + 'a" where
  "lastOf xs = (case rev xs of [] \<Rightarrow> Inl TypeError | x # rest \<Rightarrow> Inr x)"

text \<open>
  \<open>generateReport\<close>. Its first argument is the value that \<open>Date.now()\<close> returns during
  the call. The five analyses are taken to be distinct objects. The result is the report,
  whose \<open>macroAnalysis\<close> is the caller's object after the in-place normalisation of
  \<open>generateActionPlan\<close>, or the TypeError raised by reading \<open>.close\<close> of the last
  element of an empty \<open>stockData\<close>, or \<open>.timeframe\<close> of the first element of an empty
  recommendation list. The two calls of \<open>getRecommendation\<close> are made and their results
  dropped, as in the source.
\<close>

definition generateReport ::
  "nat \<Rightarrow> AgentInput \<Rightarrow> AgentOutput \<Rightarrow> AgentOutput \<Rightarrow> AgentOutput \<Rightarrow> AgentOutput \<Rightarrow> AgentOutput
     \<Rightarrow> error + AnalysisReport" where
  "generateReport now input fundamental technical sentiment macro naturalLanguage =
     (case lastOf (stockData input) of
        Inl e \<Rightarrow> Inl e
      | Inr lastBar \<Rightarrow>
     let currentPrice = close lastBar;
         strategicAssessment = generateStrategicAssessment macro;
         plan = generateActionPlan macro;
         actionPlan = fst plan;
         macro' = snd plan;
         marketContext = generateMarketContext technical;
         riskSnapshot = generateRiskSnapshot fundamental technical sentiment macro';
         finalText = finalRecommendationText (AgentInput.symbol input) (summary naturalLanguage)
                       strategicAssessment actionPlan marketContext riskSnapshot;
         conf = num_add (num_add (num_add
                  (num_mul (AgentOutput.confidence fundamental) (dbl 0.3))
                  (num_mul (AgentOutput.confidence technical) (dbl 0.3)))
                  (num_mul (AgentOutput.confidence sentiment) (dbl 0.2)))
                  (num_mul (AgentOutput.confidence macro') (dbl 0.2))
     in
     case firstOf (recommendations technical) of
        Inl e \<Rightarrow> Inl e
      | Inr tr \<Rightarrow>
     case firstOf (recommendations sentiment) of
        Inl e \<Rightarrow> Inl e
      | Inr sr \<Rightarrow>
     case firstOf (recommendations macro') of
        Inl e \<Rightarrow> Inl e
      | Inr mr \<Rightarrow>
     case firstOf (recommendations fundamental) of
        Inl e \<Rightarrow> Inl e
      | Inr fr \<Rightarrow>
     case getRecommendation (filter (\<lambda>rec. timeframe rec = ''short-term'') [tr, sr, mr]) of
        Inl e \<Rightarrow> Inl e
      | Inr shortTerm \<Rightarrow>
     case getRecommendation (filter (\<lambda>rec. timeframe rec = ''long-term'') [fr, tr]) of
        Inl e \<Rightarrow> Inl e
      | Inr longTerm \<Rightarrow>
     let targets0 = \<lparr> bullish = num_mul currentPrice (dbl 1.1),
                      base = currentPrice,
                      bearish = num_mul currentPrice (dbl 0.9) \<rparr>;
         targets =
           (case targetPrice tr of
              None \<Rightarrow> targets0
            | Some tp \<Rightarrow>
                if truthy tp
                then targets0 \<lparr> bullish := tp,
                                bearish := num_or (stopLoss tr) (bearish targets0) \<rparr>
                else targets0)
     in Inr \<lparr> AnalysisReport.symbol = AgentInput.symbol input,
              timestamp = now,
              fundamentalAnalysis = fundamental,
              technicalAnalysis = technical,
              sentimentAnalysis = sentiment,
              macroAnalysis = macro',
              finalRecommendation = finalText,
              AnalysisReport.confidence = conf,
              AnalysisReport.risks =
                AgentOutput.risks fundamental @ AgentOutput.risks technical
                @ AgentOutput.risks sentiment @ AgentOutput.risks macro',
              AnalysisReport.supportLevels =
                (case Metrics.supportLevels (metrics technical) of None \<Rightarrow> [] | Some ls \<Rightarrow> ls),
              AnalysisReport.resistanceLevels =
                (case Metrics.resistanceLevels (metrics technical) of None \<Rightarrow> [] | Some ls \<Rightarrow> ls),
              priceTargets = targets \<rparr>)"

section \<open>Concrete inputs\<close>

text \<open>
  A portfolio whose three holdings sum to \<open>1 + 1/2048\<close> (every value is a binary
  fraction), and position limits wide enough for the second pass to leave it alone.
\<close>

definition nearOneHoldings :: "ActualAllocations" where
  "nearOneHoldings =
     \<lparr> ActualAllocations.holdings = Some [\<lparr> Holding.symbol = ''FEPI'', allocation = Fin 0.5 \<rparr>,
                        \<lparr> Holding.symbol = ''SHY'', allocation = Fin 0.25 \<rparr>,
                        \<lparr> Holding.symbol = ''EDV'', allocation = Fin (513 / 2048) \<rparr>],
       limitExceeded = None \<rparr>"

definition wideLimits :: "PositionLimits" where
  "wideLimits = \<lparr> maxSingleOptionETF = Some (Fin 0.5), maxCombinedOptionETFs = Some (Fin 0.5),
                  idealIncomePieAllocation = None \<rparr>"

text \<open>Position limits with a combined cap of 20%.\<close>

definition tightLimits :: "PositionLimits" where
  "tightLimits = \<lparr> maxSingleOptionETF = Some (dbl 0.05), maxCombinedOptionETFs = Some (dbl 0.20),
                   idealIncomePieAllocation = None \<rparr>"



text \<open>
  Three holdings of \<open>2^-1030\<close> each, a subnormal binary64 value, and position limits of
  \<open>Infinity\<close>.
\<close>

definition tinyHoldings :: "ActualAllocations" where
  "tinyHoldings =
     \<lparr> ActualAllocations.holdings = Some [\<lparr> Holding.symbol = ''FEPI'', allocation = Fin (1 / 2 ^ 1030) \<rparr>,
                        \<lparr> Holding.symbol = ''SHY'', allocation = Fin (1 / 2 ^ 1030) \<rparr>,
                        \<lparr> Holding.symbol = ''EDV'', allocation = Fin (1 / 2 ^ 1030) \<rparr>],
       limitExceeded = None \<rparr>"

definition unboundedLimits :: "PositionLimits" where
  "unboundedLimits = \<lparr> maxSingleOptionETF = Some PInf, maxCombinedOptionETFs = Some PInf,
                       idealIncomePieAllocation = None \<rparr>"

text \<open>
  Position limits with a combined cap of \<open>-9007199254740994\<close>, that is \<open>-(2^53 + 2)\<close>, and
  position limits with a combined cap of \<open>3000000000000000\<close>. Both caps are binary64
  values.
\<close>

definition negativeCapLimits :: PositionLimits where
  "negativeCapLimits =
     \<lparr> maxSingleOptionETF = None, maxCombinedOptionETFs = Some (Fin (- 9007199254740994)),
       idealIncomePieAllocation = None \<rparr>"


text \<open>Two recommendations of equal conviction, the BUY first.\<close>

definition tiedRecs :: "Recommendation list" where
  "tiedRecs =
     [\<lparr> action = ''BUY'', symbol = ''FEPI'', timeframe = ''short-term'', conviction = Fin 5,
        rationale = ''momentum'', targetPrice = None, stopLoss = None \<rparr>,
      \<lparr> action = ''SELL'', symbol = ''FEPI'', timeframe = ''short-term'', conviction = Fin 5,
        rationale = ''volatility'', targetPrice = None, stopLoss = None \<rparr>]"

text \<open>
  Three SELL recommendations of conviction 1, 4 and 1, then a BUY of conviction 6. The
  convictions for SELL and for BUY have the same sum, but the three quotients
  \<open>1 / 12\<close>, \<open>4 / 12\<close> and \<open>1 / 12\<close> add up to 0.49999999999999994 in binary64
  arithmetic.
\<close>

definition roundedRecs :: "Recommendation list" where
  "roundedRecs =
     [\<lparr> action = ''SELL'', symbol = ''FEPI'', timeframe = ''short-term'', conviction = Fin 1,
        rationale = ''volatility'', targetPrice = None, stopLoss = None \<rparr>,
      \<lparr> action = ''SELL'', symbol = ''FEPI'', timeframe = ''short-term'', conviction = Fin 4,
        rationale = ''erosion'', targetPrice = None, stopLoss = None \<rparr>,
      \<lparr> action = ''SELL'', symbol = ''FEPI'', timeframe = ''short-term'', conviction = Fin 1,
        rationale = ''yield'', targetPrice = None, stopLoss = None \<rparr>,
      \<lparr> action = ''BUY'', symbol = ''FEPI'', timeframe = ''short-term'', conviction = Fin 6,
        rationale = ''momentum'', targetPrice = None, stopLoss = None \<rparr>]"

text \<open>
  A portfolio state with every field present, and the input built from it, with one bar
  of stock data.
\<close>

definition samplePortfolio :: PortfolioState where
  "samplePortfolio =
     \<lparr> marketCondition =
         \<lparr> vix = Fin 18, MarketCondition.vixTrend = ''FALLING'', MarketCondition.riskLevel = ''LOW'',
           tenYearYield = Fin 4.5, twoYearYield = Fin 4.25 \<rparr>,
       PortfolioState.metrics = \<lparr> PortfolioMetrics.sharpeRatio = Fin 0.5, totalYield = Fin 0.125 \<rparr>,
       PortfolioState.rotationSignals = Some [],
       PortfolioState.holdings =
         Some [\<lparr> PortfolioHolding.symbol = ''FEPI'', weeklyPerformance = Fin 1, navErosion = Fin (- 1) \<rparr>] \<rparr>"

definition sampleInput :: AgentInput where
  "sampleInput =
     \<lparr> portfolioState = samplePortfolio,
       AgentInput.actualAllocations = None,
       AgentInput.positionLimits = None,
       AgentInput.symbol = ''FEPI'',
       stockData = [\<lparr> close = Fin 50 \<rparr>] \<rparr>"

text \<open>The same input with no rotation signals in the portfolio state.\<close>

definition missingSignalsInput :: AgentInput where
  "missingSignalsInput =
     sampleInput \<lparr> portfolioState := samplePortfolio \<lparr> PortfolioState.rotationSignals := None \<rparr> \<rparr>"




section \<open>Properties of binary64 rounding\<close>

subsection \<open>Powers of two and the binary exponent\<close>

lemma pow2_powi: "pow2 e = 2 powi e"
  by (simp add: pow2_def power_int_def inverse_eq_divide power_one_over)

lemma pow2_pos [simp]: "0 < pow2 e"
  by (simp add: pow2_powi)

lemma pow2_nonneg [simp]: "0 \<le> pow2 e"
  using pow2_pos [of e] by (rule less_imp_le)

lemma pow2_nonzero [simp]: "pow2 e \<noteq> 0"
  by (simp add: pow2_powi)

lemma pow2_abs [simp]: "\<bar>pow2 e\<bar> = pow2 e"
  by (simp add: abs_of_pos)

lemma pow2_add: "pow2 (a + b) = pow2 a * pow2 b"
  by (simp add: pow2_powi power_int_add)

lemma pow2_diff: "pow2 (a - b) = pow2 a / pow2 b"
  by (simp add: pow2_powi power_int_diff)

lemma pow2_mono: "a \<le> b \<Longrightarrow> pow2 a \<le> pow2 b"
  by (simp add: pow2_powi power_int_increasing)

lemma pow2_strict_mono: "a < b \<Longrightarrow> pow2 a < pow2 b"
  by (simp add: pow2_powi power_int_strict_increasing)

lemma pow2_Suc: "pow2 (e + 1) = 2 * pow2 e"
  by (simp add: pow2_add) (simp add: pow2_def)

lemma pow2_0 [simp]: "pow2 0 = 1"
  by (simp add: pow2_def)

lemma up_props:
  "e \<le> 1024 \<Longrightarrow>
     e \<le> up e x \<and> up e x \<le> 1024 \<and> (up e x < 1024 \<longrightarrow> x < 2 * pow2 (up e x))
     \<and> (pow2 e \<le> x \<longrightarrow> pow2 (up e x) \<le> x)"
proof (induction e x rule: up.induct)
  case (1 e x)
  show ?case
  proof (cases "e < 1024 \<and> 2 * pow2 e \<le> x")
    case True
    then have eq: "up e x = up (e + 1) x" by (subst up.simps) simp
    from True have "e + 1 \<le> 1024" by simp
    from 1(1) [OF True this] True show ?thesis
      unfolding eq by (auto simp add: pow2_Suc)
  next
    case False
    then have eq: "up e x = e" by (subst up.simps) auto
    from False 1(2) show ?thesis unfolding eq by auto
  qed
qed

lemma down_props:
  "- 1022 \<le> e \<Longrightarrow>
     down e x \<le> e \<and> - 1022 \<le> down e x \<and> (- 1022 < down e x \<longrightarrow> pow2 (down e x) \<le> x)
     \<and> (x < 2 * pow2 e \<longrightarrow> x < 2 * pow2 (down e x))"
proof (induction e x rule: down.induct)
  case (1 e x)
  show ?case
  proof (cases "- 1022 < e \<and> x < pow2 e")
    case True
    then have eq: "down e x = down (e - 1) x" by (subst down.simps) simp
    from True have b: "- 1022 \<le> e - 1" by simp
    have "2 * pow2 (e - 1) = pow2 e" using pow2_Suc [of "e - 1"] by simp
    with 1(1) [OF True b] True show ?thesis
      unfolding eq by auto
  next
    case False
    then have eq: "down e x = e" by (subst down.simps) auto
    from False 1(2) show ?thesis unfolding eq by auto
  qed
qed

lemma exponent_range: "- 1022 \<le> exponent x \<and> exponent x \<le> 1024"
  using up_props [of 0 x] down_props [of 0 x] by (auto simp add: exponent_def)

lemma exponent_lower:
  assumes "pow2 (- 1022) \<le> x"
  shows "pow2 (exponent x) \<le> x"
proof (cases "1 \<le> x")
  case True
  then show ?thesis using up_props [of 0 x] by (simp add: exponent_def)
next
  case False
  then have e: "exponent x = down 0 x" by (simp add: exponent_def)
  show ?thesis
  proof (cases "- 1022 < down 0 x")
    case True
    then show ?thesis using down_props [of 0 x] e by simp
  next
    case False
    then have "down 0 x = - 1022" using down_props [of 0 x] by simp
    then show ?thesis using assms e by simp
  qed
qed

lemma exponent_upper:
  assumes "0 < x" and "x < pow2 1024"
  shows "x < 2 * pow2 (exponent x)"
proof (cases "1 \<le> x")
  case True
  then have e: "exponent x = up 0 x" by (simp add: exponent_def)
  show ?thesis
  proof (cases "up 0 x < 1024")
    case True
    then show ?thesis using up_props [of 0 x] e by simp
  next
    case False
    then have u: "up 0 x = 1024" using up_props [of 0 x] by simp
    have "pow2 1024 \<le> 2 * pow2 1024" by simp
    then show ?thesis using assms e u by simp
  qed
next
  case False
  then show ?thesis using down_props [of 0 x] by (simp add: exponent_def)
qed

lemma exponent_le:
  assumes "0 < x" and "x < 2 * pow2 k" and "- 1022 \<le> k"
  shows "exponent x \<le> k"
proof (rule ccontr)
  assume "\<not> exponent x \<le> k"
  then have k: "k + 1 \<le> exponent x" by simp
  then have "- 1022 < exponent x" using assms(3) by simp
  have "pow2 (exponent x) \<le> x"
  proof (cases "1 \<le> x")
    case True
    then show ?thesis using up_props [of 0 x] by (simp add: exponent_def)
  next
    case False
    then show ?thesis using down_props [of 0 x] \<open>- 1022 < exponent x\<close>
      by (simp add: exponent_def)
  qed
  moreover have "pow2 (k + 1) \<le> pow2 (exponent x)" using k by (rule pow2_mono)
  ultimately show False using assms(2) by (simp add: pow2_Suc)
qed

lemma roundEven_error: "\<bar>of_int (roundEven q) - q\<bar> \<le> 1 / 2"
  unfolding roundEven_def Let_def by (auto simp add: abs_if) linarith+

lemma roundEven_of_int [simp]: "roundEven (of_int n) = n"
  by (simp add: roundEven_def)


lemma roundEven_ge: "of_int n \<le> q \<Longrightarrow> n \<le> roundEven q"
  unfolding roundEven_def Let_def by (auto simp add: le_floor_iff) linarith

lemma roundEven_le: "q \<le> of_int n \<Longrightarrow> roundEven q \<le> n"
  unfolding roundEven_def Let_def by (auto simp add: floor_le_iff)

lemma fl_not_NaN [simp]: "fl x \<noteq> NaN"
  by (simp add: fl_def Let_def)

lemma fl_0 [simp]: "fl 0 = Fin 0"
  by (simp add: fl_def)

lemma fl_round_error:
  assumes "x \<noteq> 0"
  defines "ulp \<equiv> pow2 (exponent \<bar>x\<bar> - 52)"
  defines "r \<equiv> of_int (roundEven (x / ulp)) * ulp"
  shows "\<bar>r - x\<bar> \<le> pow2 (exponent \<bar>x\<bar> - 53)"
proof -
  have u: "0 < ulp" by (simp add: ulp_def)
  have "r - x = (of_int (roundEven (x / ulp)) - x / ulp) * ulp"
    using u by (simp add: r_def field_simps)
  then have "\<bar>r - x\<bar> = \<bar>of_int (roundEven (x / ulp)) - x / ulp\<bar> * ulp"
    using u by (simp add: abs_mult)
  also have "\<dots> \<le> 1 / 2 * ulp"
    using roundEven_error [of "x / ulp"] u by (intro mult_right_mono) auto
  also have "\<dots> = pow2 (exponent \<bar>x\<bar> - 53)"
    using pow2_Suc [of "exponent \<bar>x\<bar> - 53"] by (simp add: ulp_def)
  finally show ?thesis .
qed

lemma fl_abs_err:
  assumes "\<bar>x\<bar> < 2 * pow2 k" and "- 1022 \<le> k" and "k \<le> 1022"
  shows "\<exists>r. fl x = Fin r \<and> \<bar>r - x\<bar> \<le> pow2 (k - 53)"
proof (cases "x = 0")
  case True
  then show ?thesis using pow2_pos [of "k - 53"] by (simp add: less_imp_le)
next
  case False
  define ulp where "ulp = pow2 (exponent \<bar>x\<bar> - 52)"
  define r where "r = of_int (roundEven (x / ulp)) * ulp"
  from False have "0 < \<bar>x\<bar>" by simp
  then have e: "exponent \<bar>x\<bar> \<le> k" using assms(1,2) by (rule exponent_le)
  have "\<bar>r - x\<bar> \<le> pow2 (exponent \<bar>x\<bar> - 53)"
    unfolding r_def ulp_def using False by (rule fl_round_error)
  also have "\<dots> \<le> pow2 (k - 53)" using e by (intro pow2_mono) simp
  finally have err: "\<bar>r - x\<bar> \<le> pow2 (k - 53)" .
  have "pow2 (k - 53) \<le> pow2 1023" using assms(3) by (intro pow2_mono) simp
  moreover have "2 * pow2 k \<le> pow2 1023"
    using pow2_mono [of "k + 1" 1023] assms(3) by (simp add: pow2_Suc)
  moreover have "pow2 1024 = 2 * pow2 1023" using pow2_Suc [of 1023] by simp
  ultimately have "\<bar>r\<bar> < pow2 1024" using err assms(1) by linarith
  then have "fl x = Fin r"
    using False by (simp add: fl_def Let_def r_def ulp_def)
  with err show ?thesis by blast
qed

lemma fl_rel_err:
  assumes "pow2 (- 1022) \<le> \<bar>x\<bar>" and "\<bar>x\<bar> < pow2 1023"
  shows "\<exists>r. fl x = Fin r \<and> \<bar>r - x\<bar> \<le> \<bar>x\<bar> / 2 ^ 53"
proof -
  define ulp where "ulp = pow2 (exponent \<bar>x\<bar> - 52)"
  define r where "r = of_int (roundEven (x / ulp)) * ulp"
  have pos: "0 < \<bar>x\<bar>" using assms(1) pow2_pos [of "- 1022"] by linarith
  then have nz: "x \<noteq> 0" by simp
  have "\<bar>r - x\<bar> \<le> pow2 (exponent \<bar>x\<bar> - 53)"
    unfolding r_def ulp_def using nz by (rule fl_round_error)
  also have "\<dots> = pow2 (exponent \<bar>x\<bar>) / 2 ^ 53"
    by (simp add: pow2_diff) (simp add: pow2_def)
  also have "\<dots> \<le> \<bar>x\<bar> / 2 ^ 53"
    using exponent_lower [OF assms(1)] by (simp add: divide_right_mono)
  finally have err: "\<bar>r - x\<bar> \<le> \<bar>x\<bar> / 2 ^ 53" .
  have "\<bar>x\<bar> / 2 ^ 53 \<le> \<bar>x\<bar>" by (simp add: field_simps)
  moreover have "pow2 1024 = 2 * pow2 1023" using pow2_Suc [of 1023] by simp
  ultimately have "\<bar>r\<bar> < pow2 1024" using err assms(2) by linarith
  then have "fl x = Fin r"
    using nz by (simp add: fl_def Let_def r_def ulp_def)
  with err show ?thesis by blast
qed

lemma fl_exact:
  assumes x: "x = of_int m * pow2 j" and m: "\<bar>m\<bar> < 2 ^ 53" and j: "- 1074 \<le> j"
    and b: "\<bar>x\<bar> < pow2 1024"
  shows "fl x = Fin x"
proof (cases "x = 0")
  case True
  then show ?thesis by simp
next
  case False
  define e where "e = exponent \<bar>x\<bar>"
  from False have pos: "0 < \<bar>x\<bar>" by simp
  have "\<bar>x\<bar> = of_int \<bar>m\<bar> * pow2 j" by (simp add: x abs_mult)
  also have "\<dots> < 2 ^ 53 * pow2 j"
  proof -
    have "(of_int \<bar>m\<bar> :: real) < of_int (2 ^ 53)" using m by (simp only: of_int_less_iff)
    then show ?thesis by simp
  qed
  also have "\<dots> = 2 * pow2 (j + 52)"
    by (simp add: pow2_add) (simp add: pow2_def)
  finally have "\<bar>x\<bar> < 2 * pow2 (j + 52)" .
  then have le: "e \<le> j + 52" unfolding e_def using pos j by (intro exponent_le) auto
  define d where "d = nat (j + 52 - e)"
  have "pow2 j = pow2 (int d) * pow2 (e - 52)"
    using le by (simp add: d_def pow2_add [symmetric])
  then have "x / pow2 (e - 52) = of_int m * pow2 (int d)"
    by (simp add: x)
  also have "\<dots> = of_int (m * 2 ^ d)" by (simp add: pow2_def)
  finally have q: "x / pow2 (e - 52) = of_int (m * 2 ^ d)" .
  have "of_int (roundEven (x / pow2 (e - 52))) * pow2 (e - 52) = x"
    unfolding q roundEven_of_int using q by (simp add: field_simps)
  then show ?thesis using False b by (simp add: fl_def Let_def e_def)
qed


lemma fl_overflow:
  assumes "pow2 1024 \<le> \<bar>x\<bar>"
  shows "fl x = (if 0 < x then PInf else NInf)"
proof -
  have pos: "0 < \<bar>x\<bar>" using assms pow2_pos [of 1024] by linarith
  then have nz: "x \<noteq> 0" by simp
  have one: "1 \<le> \<bar>x\<bar>"
    using assms pow2_mono [of 0 1024] by simp
  have e: "exponent \<bar>x\<bar> = 1024"
  proof (rule ccontr)
    assume "exponent \<bar>x\<bar> \<noteq> 1024"
    then have lt: "up 0 \<bar>x\<bar> < 1024" using up_props [of 0 "\<bar>x\<bar>"] one by (simp add: exponent_def)
    then have "\<bar>x\<bar> < 2 * pow2 (up 0 \<bar>x\<bar>)" using up_props [of 0 "\<bar>x\<bar>"] by simp
    also have "\<dots> = pow2 (up 0 \<bar>x\<bar> + 1)" by (simp add: pow2_Suc)
    also have "\<dots> \<le> pow2 1024" using lt by (intro pow2_mono) simp
    finally show False using assms by simp
  qed
  define q where "q = x / pow2 972"
  have p: "pow2 1024 = 2 ^ 52 * pow2 972"
    using pow2_add [of 52 972] by (simp add: pow2_def)
  have big: "2 ^ 52 \<le> \<bar>q\<bar>"
    using assms unfolding p q_def by (simp add: field_simps)
  have "2 ^ 52 \<le> \<bar>roundEven q\<bar>"
  proof (cases "0 \<le> q")
    case True
    then have "of_int (2 ^ 52) \<le> q" using big by simp
    then have "2 ^ 52 \<le> roundEven q" by (rule roundEven_ge)
    then show ?thesis by simp
  next
    case False
    then have "q \<le> of_int (- (2 ^ 52))" using big by simp
    then have "roundEven q \<le> - (2 ^ 52)" by (rule roundEven_le)
    then show ?thesis by simp
  qed
  then have "(of_int (2 ^ 52) :: real) \<le> of_int \<bar>roundEven q\<bar>" by (simp only: of_int_le_iff)
  then have "2 ^ 52 * pow2 972 \<le> \<bar>of_int (roundEven q)\<bar> * pow2 972"
    by (intro mult_right_mono) auto
  then have "pow2 1024 \<le> \<bar>of_int (roundEven q) * pow2 972\<bar>"
    unfolding p by (simp add: abs_mult)
  then show ?thesis using nz e by (simp add: fl_def Let_def q_def)
qed

subsection \<open>Relative errors\<close>

text \<open>
  A value in the normal range is rounded with a relative error of at most \<open>eps\<close>. The
  lemmas below combine relative errors of positive quantities:
  \<open>\<bar>b - a\<bar> \<le> k * a\<close> reads ``\<open>b\<close> is \<open>a\<close> up to a relative error of \<open>k\<close>''.
\<close>

lemma eps_pos: "0 < eps" by (simp add: eps_def)

lemma rel_trans:
  fixes a b c :: real
  assumes "\<bar>b - a\<bar> \<le> k1 * a" and "\<bar>c - b\<bar> \<le> k2 * b" and "0 \<le> a" and "0 \<le> k2" and "k1 \<le> 1"
  shows "\<bar>c - a\<bar> \<le> (k1 + 2 * k2) * a"
proof -
  have "k1 * a \<le> 1 * a" using assms(3,5) by (rule mult_right_mono[rotated])
  then have "b \<le> 2 * a" using assms(1) by linarith
  then have "k2 * b \<le> k2 * (2 * a)" using assms(4) by (rule mult_left_mono)
  then have "\<bar>c - b\<bar> \<le> 2 * k2 * a" using assms(2) by simp
  then show ?thesis using assms(1) by (simp add: distrib_right)
qed

lemma rel_add:
  fixes a b c d :: real
  assumes "\<bar>b - a\<bar> \<le> k * a" and "\<bar>d - c\<bar> \<le> k * c"
  shows "\<bar>(b + d) - (a + c)\<bar> \<le> k * (a + c)"
  using assms by (simp add: distrib_left)

lemma rel_scale:
  fixes a b c :: real
  assumes "\<bar>b - a\<bar> \<le> k * a" and "0 \<le> c"
  shows "\<bar>c * b - c * a\<bar> \<le> k * (c * a)"
proof -
  have "\<bar>c * b - c * a\<bar> = c * \<bar>b - a\<bar>"
    using assms(2) by (simp add: right_diff_distrib [symmetric] abs_mult)
  also have "\<dots> \<le> c * (k * a)" using assms by (intro mult_left_mono)
  finally show ?thesis by (simp add: mult.left_commute)
qed

lemma rel_lower:
  fixes a b :: real
  assumes "\<bar>b - a\<bar> \<le> k * a" and "0 \<le> a" and "k \<le> 1 / 2"
  shows "a / 2 \<le> b" and "b \<le> 2 * a"
proof -
  have "k * a \<le> 1 / 2 * a" using assms(2,3) by (rule mult_right_mono[rotated])
  then show "a / 2 \<le> b" and "b \<le> 2 * a" using assms(1,2) by linarith+
qed

lemma rel_inverse:
  fixes a b :: real
  assumes "\<bar>b - a\<bar> \<le> k * a" and "0 < a" and "0 \<le> k" and "k \<le> 1 / 2"
  shows "\<bar>1 / b - 1 / a\<bar> \<le> (2 * k) * (1 / a)"
proof -
  have half: "a / 2 \<le> b" using assms by (intro rel_lower(1) [of b a k]) auto
  then have b: "0 < b" using assms(2) by linarith
  have "1 / b - 1 / a = (a - b) / (a * b)"
    using b assms(2) by (simp add: field_simps)
  then have "\<bar>1 / b - 1 / a\<bar> = \<bar>b - a\<bar> / (a * b)"
    using b assms(2) by (simp add: abs_minus_commute abs_mult)
  also have "\<dots> \<le> (k * a) / (a * b)"
    using assms(1,2) b by (intro divide_right_mono) auto
  also have "\<dots> = k / b" using assms(2) by simp
  also have "\<dots> \<le> k / (a / 2)"
    using half assms(2,3) by (intro divide_left_mono) auto
  also have "\<dots> = (2 * k) * (1 / a)" by simp
  finally show ?thesis .
qed

lemma rel_fl:
  assumes "pow2 (- 1022) \<le> x" and "x < pow2 1023"
  shows "\<exists>r. fl x = Fin r \<and> \<bar>r - x\<bar> \<le> eps * x"
proof -
  have "0 < x" using assms(1) pow2_pos [of "- 1022"] by linarith
  then show ?thesis using fl_rel_err [of x] assms by (simp add: eps_def)
qed

subsection \<open>The decimal literals of the source\<close>

lemmas fl_eval = fl_def exponent_def up.simps down.simps pow2_def roundEven_def Let_def

text \<open>The binary64 value of each decimal literal, the literal in lowest terms.\<close>

lemma dbl_0_001: "dbl (1 / 1000) = Fin (1152921504606847 / 1152921504606846976)"
  by (simp add: dbl_def fl_eval)

lemma dbl_0_05: "dbl (1 / 20) = Fin (3602879701896397 / 72057594037927936)"
  by (simp add: dbl_def fl_eval)

lemma dbl_0_1: "dbl (1 / 10) = Fin (3602879701896397 / 36028797018963968)"
  by (simp add: dbl_def fl_eval)

lemma dbl_0_2: "dbl (1 / 5) = Fin (3602879701896397 / 18014398509481984)"
  by (simp add: dbl_def fl_eval)

lemma dbl_0_3: "dbl (3 / 10) = Fin (5404319552844595 / 18014398509481984)"
  by (simp add: dbl_def fl_eval)

lemma dbl_0_33: "dbl (33 / 100) = Fin (5944751508129055 / 18014398509481984)"
  by (simp add: dbl_def fl_eval)

lemma dbl_0_34: "dbl (17 / 50) = Fin (6124895493223875 / 18014398509481984)"
  by (simp add: dbl_def fl_eval)

lemma dbl_0_35: "dbl (7 / 20) = Fin (3152519739159347 / 9007199254740992)"
  by (simp add: dbl_def fl_eval)

lemma dbl_0_4: "dbl (2 / 5) = Fin (3602879701896397 / 9007199254740992)"
  by (simp add: dbl_def fl_eval)

lemma dbl_0_6: "dbl (3 / 5) = Fin (5404319552844595 / 9007199254740992)"
  by (simp add: dbl_def fl_eval)

lemma dbl_0_7: "dbl (7 / 10) = Fin (3152519739159347 / 4503599627370496)"
  by (simp add: dbl_def fl_eval)

lemma dbl_0_9: "dbl (9 / 10) = Fin (8106479329266893 / 9007199254740992)"
  by (simp add: dbl_def fl_eval)

lemma dbl_1_1: "dbl (11 / 10) = Fin (2476979795053773 / 2251799813685248)"
  by (simp add: dbl_def fl_eval)

lemmas dbl_values = dbl_0_001 dbl_0_05 dbl_0_1 dbl_0_2 dbl_0_3 dbl_0_33 dbl_0_34 dbl_0_35 dbl_0_4 dbl_0_6 dbl_0_7 dbl_0_9 dbl_1_1

subsection \<open>Three totals, rescaled by the inverse of their sum\<close>

lemma num_sub_Fin: "num_sub (Fin x) (Fin y) = fl (x - y)"
  by (simp add: num_sub_def)

lemma fl_normal:
  assumes "1 / 2 ^ 1000 \<le> x" and "x \<le> 2 ^ 1000"
  shows "\<exists>r. fl x = Fin r \<and> \<bar>r - x\<bar> \<le> eps * x"
proof (rule rel_fl)
  show "pow2 (- 1022) \<le> x" using assms(1) by (simp add: pow2_def) 
  show "x < pow2 1023" using assms(2) by (simp add: pow2_def)
qed

lemma sum3_rel:
  assumes "1 / 2 ^ 900 \<le> t1" "t1 \<le> 2 ^ 900" "1 / 2 ^ 900 \<le> t2" "t2 \<le> 2 ^ 900"
    "1 / 2 ^ 900 \<le> t3" "t3 \<le> 2 ^ 900"
  shows "\<exists>s. num_add (num_add (Fin t1) (Fin t2)) (Fin t3) = Fin s
           \<and> \<bar>s - (t1 + t2 + t3)\<bar> \<le> (3 * eps) * (t1 + t2 + t3)"
proof -
  have "1 / 2 ^ 1000 \<le> t1 + t2" "t1 + t2 \<le> 2 ^ 1000" using assms by simp_all
  then obtain s12 where s12: "fl (t1 + t2) = Fin s12" "\<bar>s12 - (t1 + t2)\<bar> \<le> eps * (t1 + t2)"
    using fl_normal by blast
  have pos: "0 \<le> t1 + t2" using assms by simp
  have e: "eps \<le> 1 / 2" by (simp add: eps_def)
  have b12: "(t1 + t2) / 2 \<le> s12" "s12 \<le> 2 * (t1 + t2)"
    using rel_lower [OF s12(2) pos e] by simp_all
  have "1 / 2 ^ 1000 \<le> s12 + t3" "s12 + t3 \<le> 2 ^ 1000" using assms b12 by simp_all
  then obtain s where s: "fl (s12 + t3) = Fin s" "\<bar>s - (s12 + t3)\<bar> \<le> eps * (s12 + t3)"
    using fl_normal by blast
  have "\<bar>t3 - t3\<bar> \<le> eps * t3" using assms(5) eps_pos by simp
  with s12(2) have r1: "\<bar>(s12 + t3) - (t1 + t2 + t3)\<bar> \<le> eps * (t1 + t2 + t3)"
    by (rule rel_add)
  have "\<bar>s - (t1 + t2 + t3)\<bar> \<le> (eps + 2 * eps) * (t1 + t2 + t3)"
    using r1 s(2) by (rule rel_trans) (use assms eps_pos in \<open>simp_all add: eps_def\<close>)
  then show ?thesis using s12(1) s(1) by simp
qed

lemma inverse_rel:
  assumes "1 / 2 ^ 900 \<le> T" "T \<le> 2 ^ 900" and "\<bar>s - T\<bar> \<le> (3 * eps) * T"
  shows "\<exists>f. num_div (Fin 1) (Fin s) = Fin f \<and> \<bar>f - 1 / T\<bar> \<le> (8 * eps) * (1 / T)"
proof -
  have Tpos: "0 < T" using assms(1) by (rule less_le_trans [rotated]) simp
  have k: "3 * eps \<le> 1 / 2" "0 \<le> 3 * eps" by (simp_all add: eps_def)
  have bs: "T / 2 \<le> s" "s \<le> 2 * T"
    using rel_lower [OF assms(3) _ k(1)] Tpos by simp_all
  then have spos: "0 < s" using Tpos by linarith
  have inv: "\<bar>1 / s - 1 / T\<bar> \<le> (2 * (3 * eps)) * (1 / T)"
    using assms(3) Tpos k(2) k(1) by (rule rel_inverse)
  have "1 / (2 * T) \<le> 1 / s" using bs(2) spos by (simp add: frac_le)
  moreover have "1 / 2 ^ 901 \<le> 1 / (2 * T)" using assms(2) Tpos by (simp add: frac_le)
  ultimately have lo: "1 / 2 ^ 1000 \<le> 1 / s" by simp
  have "1 / s \<le> 1 / (T / 2)" using bs(1) Tpos by (intro divide_left_mono) auto
  moreover have "1 / (T / 2) \<le> 2 ^ 901" using assms(1) Tpos by (simp add: field_simps)
  ultimately have hi: "1 / s \<le> 2 ^ 1000" by simp
  obtain f where f: "fl (1 / s) = Fin f" "\<bar>f - 1 / s\<bar> \<le> eps * (1 / s)"
    using fl_normal [OF lo hi] by blast
  have "\<bar>f - 1 / T\<bar> \<le> (2 * (3 * eps) + 2 * eps) * (1 / T)"
    using inv f(2) by (rule rel_trans) (use Tpos in \<open>simp_all add: eps_def\<close>)
  then show ?thesis using f(1) spos by simp
qed


lemma product_rel:
  assumes "1 / 2 ^ 300 \<le> t" "t \<le> 2 ^ 300" "1 / 2 ^ 300 \<le> T" "T \<le> 2 ^ 300"
    and "\<bar>f - 1 / T\<bar> \<le> (8 * eps) * (1 / T)"
  shows "\<exists>u. num_mul (Fin t) (Fin f) = Fin u \<and> \<bar>u - t / T\<bar> \<le> (10 * eps) * (t / T)"
proof -
  have Tpos: "0 < T" using assms(3) by (rule less_le_trans [rotated]) simp
  have tpos: "0 < t" using assms(1) by (rule less_le_trans [rotated]) simp
  have q: "0 < t / T" using Tpos tpos by simp
  have k: "8 * eps \<le> 1 / 2" by (simp add: eps_def)
  have "\<bar>t * f - t * (1 / T)\<bar> \<le> (8 * eps) * (t * (1 / T))"
    using assms(5) tpos by (intro rel_scale) auto
  then have r1: "\<bar>t * f - t / T\<bar> \<le> (8 * eps) * (t / T)" by simp
  have bp: "(t / T) / 2 \<le> t * f" "t * f \<le> 2 * (t / T)"
    using rel_lower [OF r1 _ k] q by simp_all
  have "1 / 2 ^ 300 / 2 ^ 300 \<le> t / T"
    using assms(1,4) Tpos by (intro frac_le) auto
  then have lo: "1 / 2 ^ 1000 \<le> t * f" using bp(1) by simp
  have "t / T \<le> 2 ^ 300 / (1 / 2 ^ 300)"
    using assms(2,3) tpos by (intro frac_le) auto
  then have hi: "t * f \<le> 2 ^ 1000" using bp(2) by simp
  obtain u where u: "fl (t * f) = Fin u" "\<bar>u - t * f\<bar> \<le> eps * (t * f)"
    using fl_normal [OF lo hi] by blast
  have "\<bar>u - t / T\<bar> \<le> (8 * eps + 2 * eps) * (t / T)"
    using r1 u(2) by (rule rel_trans) (use q in \<open>simp_all add: eps_def\<close>)
  then show ?thesis using u(1) by simp
qed

lemma scaled_totals:
  assumes "1 / 2 ^ 200 \<le> lo" "hi \<le> 2 ^ 200"
    and "lo \<le> t1" "t1 \<le> hi" "lo \<le> t2" "t2 \<le> hi" "lo \<le> t3" "t3 \<le> hi"
  shows "\<exists>f u1 u2 u3 U.
           num_div (Fin 1) (num_add (num_add (Fin t1) (Fin t2)) (Fin t3)) = Fin f
         \<and> num_mul (Fin t1) (Fin f) = Fin u1
         \<and> num_mul (Fin t2) (Fin f) = Fin u2
         \<and> num_mul (Fin t3) (Fin f) = Fin u3
         \<and> num_add (num_add (Fin u1) (Fin u2)) (Fin u3) = Fin U
         \<and> \<bar>U - 1\<bar> \<le> 16 * eps
         \<and> lo / (8 * hi) \<le> u1 \<and> u1 \<le> 2 \<and> lo / (8 * hi) \<le> u2 \<and> u2 \<le> 2
         \<and> lo / (8 * hi) \<le> u3 \<and> u3 \<le> 2"
proof -
  define T where "T = t1 + t2 + t3"
  have lopos: "0 < lo" using assms(1) by (rule less_le_trans [rotated]) simp
  have b: "1 / 2 ^ 200 \<le> t1" "t1 \<le> 2 ^ 200" "1 / 2 ^ 200 \<le> t2" "t2 \<le> 2 ^ 200"
      "1 / 2 ^ 200 \<le> t3" "t3 \<le> 2 ^ 200"
    using assms by linarith+
  have bT: "1 / 2 ^ 200 \<le> T" "T \<le> 3 * 2 ^ 200" "T \<le> 3 * hi" "0 < T"
    using b assms lopos by (simp_all add: T_def)
  obtain s where s: "num_add (num_add (Fin t1) (Fin t2)) (Fin t3) = Fin s"
      "\<bar>s - T\<bar> \<le> (3 * eps) * T"
    using sum3_rel [of t1 t2 t3] b unfolding T_def by fastforce
  obtain f where f: "num_div (Fin 1) (Fin s) = Fin f" "\<bar>f - 1 / T\<bar> \<le> (8 * eps) * (1 / T)"
    using inverse_rel [of T s] bT s(2) by fastforce
  have prod: "\<exists>u. num_mul (Fin t) (Fin f) = Fin u \<and> \<bar>u - t / T\<bar> \<le> (10 * eps) * (t / T)"
    if "1 / 2 ^ 200 \<le> t" "t \<le> 2 ^ 200" for t
    using product_rel [of t T f] that bT f(2) by fastforce
  obtain u1 where u1: "num_mul (Fin t1) (Fin f) = Fin u1" "\<bar>u1 - t1 / T\<bar> \<le> (10 * eps) * (t1 / T)"
    using prod [OF b(1,2)] by blast
  obtain u2 where u2: "num_mul (Fin t2) (Fin f) = Fin u2" "\<bar>u2 - t2 / T\<bar> \<le> (10 * eps) * (t2 / T)"
    using prod [OF b(3,4)] by blast
  obtain u3 where u3: "num_mul (Fin t3) (Fin f) = Fin u3" "\<bar>u3 - t3 / T\<bar> \<le> (10 * eps) * (t3 / T)"
    using prod [OF b(5,6)] by blast
  have k: "10 * eps \<le> 1 / 2" by (simp add: eps_def)
  have frac: "lo / (3 * hi) \<le> t / T \<and> t / T \<le> 1" if "lo \<le> t" "t \<le> T" for t
    using that bT lopos by (auto intro!: frac_le)
  have le: "t1 \<le> T" "t2 \<le> T" "t3 \<le> T" using b by (simp_all add: T_def)
  have bu: "lo / (8 * hi) \<le> u \<and> u \<le> 2 \<and> 1 / 2 ^ 900 \<le> u \<and> u \<le> 2 ^ 900"
    if "\<bar>u - t / T\<bar> \<le> (10 * eps) * (t / T)" "lo \<le> t" "t \<le> T" for u t
  proof -
    have q: "lo / (3 * hi) \<le> t / T" "t / T \<le> 1" using frac [OF that(2,3)] by simp_all
    have hipos: "0 < hi" using assms lopos by linarith
    have q0: "0 \<le> t / T" using that(2) lopos bT(4) by simp
    have h: "(t / T) / 2 \<le> u" "u \<le> 2 * (t / T)" using rel_lower [OF that(1) q0 k] by simp_all
    have "lo / (8 * hi) \<le> lo / (3 * hi) / 2" using lopos hipos by (simp add: field_simps)
    also have "\<dots> \<le> (t / T) / 2" using q(1) by simp
    also note h(1)
    finally have 1: "lo / (8 * hi) \<le> u" .
    have 2: "u \<le> 2" using h(2) q(2) by linarith
    have "1 / 2 ^ 200 / (8 * 2 ^ 200) \<le> lo / (8 * hi)"
      using assms(1,2) hipos by (intro frac_le) auto
    then have 3: "1 / 2 ^ 900 \<le> u" using 1 by simp
    from 1 2 3 show ?thesis by simp
  qed
  note bu1 = bu [OF u1(2) assms(3) le(1)] and bu2 = bu [OF u2(2) assms(5) le(2)]
    and bu3 = bu [OF u3(2) assms(7) le(3)]
  obtain U where U: "num_add (num_add (Fin u1) (Fin u2)) (Fin u3) = Fin U"
      "\<bar>U - (u1 + u2 + u3)\<bar> \<le> (3 * eps) * (u1 + u2 + u3)"
    using sum3_rel [of u1 u2 u3] bu1 bu2 bu3 by fastforce
  have one: "t1 / T + t2 / T + t3 / T = 1"
    using bT(4) by (simp add: T_def add_divide_distrib [symmetric])
  have "\<bar>(u1 + u2) - (t1 / T + t2 / T)\<bar> \<le> (10 * eps) * (t1 / T + t2 / T)"
    using u1(2) u2(2) by (rule rel_add)
  then have "\<bar>(u1 + u2 + u3) - (t1 / T + t2 / T + t3 / T)\<bar> \<le> (10 * eps) * (t1 / T + t2 / T + t3 / T)"
    using u3(2) by (rule rel_add)
  then have r: "\<bar>(u1 + u2 + u3) - 1\<bar> \<le> (10 * eps) * 1" unfolding one .
  have "\<bar>U - 1\<bar> \<le> (10 * eps + 2 * (3 * eps)) * 1"
    using r U(2) by (rule rel_trans) (simp_all add: eps_def)
  then have "\<bar>U - 1\<bar> \<le> 16 * eps" by simp
  then show ?thesis
    using s(1) f(1) u1(1) u2(1) u3(1) U(1) bu1 bu2 bu3 by auto
qed

lemma near_one_within:
  assumes "\<bar>U - 1\<bar> \<le> 16 * eps"
  shows "\<not> num_gt (Math_abs (num_sub (Fin U) (Fin 1))) (dbl 0.001)"
proof -
  have "\<bar>U - 1\<bar> < 2 * pow2 (- 49)" using assms by (simp add: eps_def pow2_def)
  then obtain r where r: "fl (U - 1) = Fin r" "\<bar>r - (U - 1)\<bar> \<le> pow2 (- 49 - 53)"
    using fl_abs_err [of "U - 1" "- 49"] by auto
  have "\<bar>r\<bar> \<le> \<bar>U - 1\<bar> + pow2 (- 49 - 53)" using r(2) by linarith
  also have "\<dots> \<le> 16 * eps + pow2 (- 49 - 53)" using assms by simp
  also have "\<dots> \<le> 1152921504606847 / 1152921504606846976" by (simp add: eps_def pow2_def)
  finally show ?thesis by (simp add: num_sub_Fin r(1) dbl_0_001 num_gt_def)
qed

section \<open>Properties of the allocation calculator\<close>

subsection \<open>Evaluation and the two normalisations\<close>

lemmas alloc_defs = calculateAllocations_def generateAdjustedAllocations_def normalizeAllocations_def
  totalAllocation_def highVixAllocations_def midVixAllocations_def limitAllocations_def
  baseAllocations_def currentAllocations_def exceedsCombined_def num_gt_def num_le_def num_sub_def
  Math_min_def truthy_def Let_def

lemmas sym_defs = optionETFSymbols_def shortTermSymbols_def treasurySymbols_def addHolding_def

text \<open>
  \<open>calculateAllocations\<close> normalises the preset it selects, and the second pass
  returns its argument or the normalised capped plan.
\<close>

lemma calculateAllocations_preset:
  "calculateAllocations v actual limits = normalizeAllocations (presetAllocations v actual limits)"
  by (simp add: calculateAllocations_def presetAllocations_def Let_def)

lemma generateAdjustedAllocations_cases:
  "generateAdjustedAllocations a limits = a
   \<or> generateAdjustedAllocations a limits = normalizeAllocations (cappedAllocations a limits)"
  unfolding generateAdjustedAllocations_def Let_def cappedAllocations_def by simp

lemma Math_abs_fl_not_NaN [simp]: "Math_abs (fl x) \<noteq> NaN"
  by (cases "fl x") (simp_all add: fl_not_NaN)

lemma within_tolerance:
  assumes "totalAllocation a = Fin U"
    and "\<not> num_gt (Math_abs (num_sub (Fin U) (Fin 1))) (dbl 0.001)"
  shows "num_le (Math_abs (num_sub (totalAllocation a) (Fin 1))) (dbl 0.001)"
  using assms by (simp add: num_le_def num_gt_def num_sub_Fin dbl_def)

text \<open>
  On three totals between \<open>lo\<close> and \<open>hi\<close>, themselves between \<open>2^-200\<close> and
  \<open>2^200\<close>, \<open>normalizeAllocations\<close> returns three positive finite totals whose sum,
  added up and compared with 1 as the function itself does, is within the tolerance. A
  second call then changes nothing.
\<close>

lemma normalizeAllocations_ordinary:
  assumes t: "IncomePie.total (incomePie a) = Fin t1"
      "ShortTermTreasury.total (shortTermTreasury a) = Fin t2"
      "TreasuryETF.total (treasuryETF a) = Fin t3"
    and b: "1 / 2 ^ 200 \<le> lo" "hi \<le> 2 ^ 200"
      "lo \<le> t1" "t1 \<le> hi" "lo \<le> t2" "t2 \<le> hi" "lo \<le> t3" "t3 \<le> hi"
  shows "\<exists>u1 u2 u3 U.
           IncomePie.total (incomePie (normalizeAllocations a)) = Fin u1
         \<and> ShortTermTreasury.total (shortTermTreasury (normalizeAllocations a)) = Fin u2
         \<and> TreasuryETF.total (treasuryETF (normalizeAllocations a)) = Fin u3
         \<and> totalAllocation (normalizeAllocations a) = Fin U
         \<and> \<not> num_gt (Math_abs (num_sub (Fin U) (Fin 1))) (dbl 0.001)
         \<and> min lo (lo / (8 * hi)) \<le> u1 \<and> u1 \<le> max hi 2
         \<and> min lo (lo / (8 * hi)) \<le> u2 \<and> u2 \<le> max hi 2
         \<and> min lo (lo / (8 * hi)) \<le> u3 \<and> u3 \<le> max hi 2"
proof (cases "num_gt (Math_abs (num_sub (totalAllocation a) (Fin 1))) (dbl 0.001)")
  case True
  obtain f u1 u2 u3 U where s:
      "num_div (Fin 1) (num_add (num_add (Fin t1) (Fin t2)) (Fin t3)) = Fin f"
      "num_mul (Fin t1) (Fin f) = Fin u1" "num_mul (Fin t2) (Fin f) = Fin u2"
      "num_mul (Fin t3) (Fin f) = Fin u3"
      "num_add (num_add (Fin u1) (Fin u2)) (Fin u3) = Fin U" "\<bar>U - 1\<bar> \<le> 16 * eps"
      "lo / (8 * hi) \<le> u1" "u1 \<le> 2" "lo / (8 * hi) \<le> u2" "u2 \<le> 2"
      "lo / (8 * hi) \<le> u3" "u3 \<le> 2"
    using scaled_totals [OF b] by blast
  have tot: "totalAllocation a = num_add (num_add (Fin t1) (Fin t2)) (Fin t3)"
    by (simp add: totalAllocation_def t)
  have n: "IncomePie.total (incomePie (normalizeAllocations a)) = Fin u1"
      "ShortTermTreasury.total (shortTermTreasury (normalizeAllocations a)) = Fin u2"
      "TreasuryETF.total (treasuryETF (normalizeAllocations a)) = Fin u3"
    using True s(1-4) by (simp_all add: normalizeAllocations_def Let_def t totalAllocation_def)
  have "totalAllocation (normalizeAllocations a) = Fin U"
    by (simp only: totalAllocation_def n s(5))
  moreover have "\<not> num_gt (Math_abs (num_sub (Fin U) (Fin 1))) (dbl 0.001)"
    using s(6) by (rule near_one_within)
  ultimately show ?thesis using n s(7-12) by auto
next
  case False
  then have same: "normalizeAllocations a = a" by (simp add: normalizeAllocations_def)
  have b2: "1 / 2 ^ 900 \<le> t1" "t1 \<le> 2 ^ 900" "1 / 2 ^ 900 \<le> t2" "t2 \<le> 2 ^ 900"
      "1 / 2 ^ 900 \<le> t3" "t3 \<le> 2 ^ 900"
  proof -
    have "(1::real) / 2 ^ 900 \<le> 1 / 2 ^ 200" "(2::real) ^ 200 \<le> 2 ^ 900" by simp_all
    then show "1 / 2 ^ 900 \<le> t1" "t1 \<le> 2 ^ 900" "1 / 2 ^ 900 \<le> t2" "t2 \<le> 2 ^ 900"
      "1 / 2 ^ 900 \<le> t3" "t3 \<le> 2 ^ 900"
      using b by linarith+
  qed
  obtain s where s: "num_add (num_add (Fin t1) (Fin t2)) (Fin t3) = Fin s"
    using sum3_rel [OF b2] by blast
  then have tot: "totalAllocation a = Fin s" by (simp add: totalAllocation_def t)
  with False have "\<not> num_gt (Math_abs (num_sub (Fin s) (Fin 1))) (dbl 0.001)" by simp
  then show ?thesis unfolding same using t tot b by auto
qed


subsection \<open>The sample input\<close>

text \<open>
  On the sample input, where every field is present, \<open>analyze\<close> returns an output.
\<close>

lemma sample_analyze: "\<exists>out. analyze sampleInput = Inr out"
  by (simp add: analyze_def Let_def generateDetailedAnalysis_def getImplementationStrategy_def
        identifyStrategyRisks_def sampleInput_def samplePortfolio_def)

subsection \<open>The bucket totals sum to 1 within the tolerance\<close>

text \<open>
  C1, as stated, fails. With a VIX of 15, three holdings of \<open>2^-1030\<close> each (FEPI, SHY
  and EDV) and position limits of \<open>Infinity\<close>, the base preset has the three totals
  \<open>2^-1030\<close>, whose sum is \<open>3 * 2^-1030\<close>. The sum is off from 1.0, so each total is
  multiplied by \<open>1 / sum\<close>, which overflows to \<open>Infinity\<close>. The second pass finds no
  limit exceeded and returns the plan as it is: its three bucket totals are \<open>Infinity\<close>,
  each of them positive, and their sum is \<open>Infinity\<close>, which is not within 0.001 of 1.0.
\<close>

theorem tiny_holdings_infinite_totals:
  "generateAdjustedAllocations
      (calculateAllocations (Fin 15) (Some tinyHoldings) (Some unboundedLimits)) (Some unboundedLimits) =
     \<lparr> incomePie = \<lparr> IncomePie.total = PInf, FEPI = dbl 0.35, SDTY = dbl 0.35, QQQY = dbl 0.30 \<rparr>,
       shortTermTreasury = \<lparr> ShortTermTreasury.total = PInf, SHY = Fin 1 \<rparr>,
       treasuryETF = \<lparr> TreasuryETF.total = PInf, EDV = Fin 1 \<rparr>,
       note' = None \<rparr>
   \<and> num_gt PInf (Fin 0)
   \<and> \<not> num_le (Math_abs (num_sub (num_add (num_add PInf PInf) PInf) (Fin 1))) (dbl 0.001)"
proof -
  define t :: real where "t = 1 / 2 ^ 1030"
  have tpos: "0 < t" by (simp add: t_def)
  have small: "t < 1 / 8" by (simp add: t_def)
  have e1: "fl t = Fin t"
    using fl_exact [of t 1 "- 1030"] by (simp add: t_def pow2_def)
  have e2: "fl (2 * t) = Fin (2 * t)"
    using fl_exact [of "2 * t" 2 "- 1030"] by (simp add: t_def pow2_def)
  have e3: "fl (3 * t) = Fin (3 * t)"
    using fl_exact [of "3 * t" 3 "- 1030"] by (simp add: t_def pow2_def)
  have cur: "currentAllocations (Some tinyHoldings) = (Fin t, Fin t, Fin t)"
    unfolding tinyHoldings_def t_def [symmetric]
    by (simp add: currentAllocations_def sym_defs e1)
  have "\<bar>3 * t - 1\<bar> < 2 * pow2 0" using tpos small by simp
  then obtain d where d: "fl (3 * t - 1) = Fin d" "\<bar>d - (3 * t - 1)\<bar> \<le> pow2 (0 - 53)"
    using fl_abs_err [of "3 * t - 1" 0] by auto
  have "pow2 (0 - 53) \<le> 1 / 8" by (simp add: pow2_def)
  then have "1 / 2 \<le> \<bar>d\<bar>" using d(2) tpos small by linarith
  then have big: "1152921504606847 / 1152921504606846976 < \<bar>d\<bar>" by linarith
  have "pow2 1024 \<le> \<bar>1 / (3 * t)\<bar>" by (simp add: t_def pow2_def)
  then have inv: "fl (1 / (3 * t)) = PInf"
    using fl_overflow [of "1 / (3 * t)"] tpos by simp
  have nz: "3 * t \<noteq> 0" using tpos by simp
  have ex: "\<not> exceedsCombined (Some tinyHoldings)"
    by (simp add: exceedsCombined_def tinyHoldings_def)
  have first: "calculateAllocations (Fin 15) (Some tinyHoldings) (Some unboundedLimits) =
     \<lparr> incomePie = \<lparr> IncomePie.total = PInf, FEPI = dbl 0.35, SDTY = dbl 0.35, QQQY = dbl 0.30 \<rparr>,
       shortTermTreasury = \<lparr> ShortTermTreasury.total = PInf, SHY = Fin 1 \<rparr>,
       treasuryETF = \<lparr> TreasuryETF.total = PInf, EDV = Fin 1 \<rparr>,
       note' = None \<rparr>"
    using tpos nz big ex
    by (simp add: calculateAllocations_def Let_def cur baseAllocations_def
          unboundedLimits_def truthy_def num_gt_def normalizeAllocations_def
          totalAllocation_def e2 e3 num_sub_def d(1) dbl_0_001 inv)
  show ?thesis
    unfolding first
    by (simp add: generateAdjustedAllocations_def Let_def unboundedLimits_def truthy_def
          num_gt_def num_le_def num_sub_def dbl_values)
qed

text \<open>
  C1, amended. Let the three totals of the preset that \<open>calculateAllocations\<close> selects
  (as they are before its normalisation) be numbers between \<open>2^-98\<close> and \<open>2^98\<close>, and
  let the combined cap in force (\<open>maxCombinedOptionETFs\<close>, or 0.25 by default) be such a
  number too. Then the plan that \<open>calculateAllocations\<close> followed by
  \<open>generateAdjustedAllocations\<close> returns has three finite, positive bucket totals, and
  their sum lies within 0.001 of 1.0: added up in binary64 arithmetic, as
  \<open>normalizeAllocations\<close> adds them, it passes the test
  \<open>Math.abs(total - 1) <= 0.001\<close>.
\<close>

theorem allocation_totals_sum_to_one:
  assumes plan: "plan = generateAdjustedAllocations (calculateAllocations v actual limits) limits"
    and preset: "IncomePie.total (incomePie (presetAllocations v actual limits)) = Fin t1"
      "ShortTermTreasury.total (shortTermTreasury (presetAllocations v actual limits)) = Fin t2"
      "TreasuryETF.total (treasuryETF (presetAllocations v actual limits)) = Fin t3"
    and range: "1 / 2 ^ 98 \<le> t1" "t1 \<le> 2 ^ 98" "1 / 2 ^ 98 \<le> t2" "t2 \<le> 2 ^ 98"
      "1 / 2 ^ 98 \<le> t3" "t3 \<le> 2 ^ 98"
    and cap: "num_or (Option.bind limits maxCombinedOptionETFs) (Fin 0.25) = Fin c"
      "1 / 2 ^ 98 \<le> c" "c \<le> 2 ^ 98"
  shows "\<exists>x y z. IncomePie.total (incomePie plan) = Fin x
           \<and> ShortTermTreasury.total (shortTermTreasury plan) = Fin y
           \<and> TreasuryETF.total (treasuryETF plan) = Fin z
           \<and> 0 < x \<and> 0 < y \<and> 0 < z
           \<and> num_le (Math_abs (num_sub (totalAllocation plan) (Fin 1))) (dbl 0.001)"
proof -
  define first where "first = calculateAllocations v actual limits"
  have first: "first = normalizeAllocations (presetAllocations v actual limits)"
    by (simp add: first_def calculateAllocations_preset)
  have lo1: "(1::real) / 2 ^ 200 \<le> 1 / 2 ^ 98" and hi1: "(2::real) ^ 98 \<le> 2 ^ 200" by simp_all
  obtain u1 u2 u3 U where u:
      "IncomePie.total (incomePie first) = Fin u1"
      "ShortTermTreasury.total (shortTermTreasury first) = Fin u2"
      "TreasuryETF.total (treasuryETF first) = Fin u3"
      "totalAllocation first = Fin U"
      "\<not> num_gt (Math_abs (num_sub (Fin U) (Fin 1))) (dbl 0.001)"
      "min (1 / 2 ^ 98) (1 / 2 ^ 98 / (8 * 2 ^ 98)) \<le> u1" "u1 \<le> max (2 ^ 98) 2"
      "min (1 / 2 ^ 98) (1 / 2 ^ 98 / (8 * 2 ^ 98)) \<le> u2" "u2 \<le> max (2 ^ 98) 2"
      "min (1 / 2 ^ 98) (1 / 2 ^ 98 / (8 * 2 ^ 98)) \<le> u3" "u3 \<le> max (2 ^ 98) 2"
    using normalizeAllocations_ordinary [OF preset lo1 hi1 range] unfolding first by blast
  have bu: "1 / 2 ^ 199 \<le> u1" "u1 \<le> 2 ^ 98" "1 / 2 ^ 199 \<le> u2" "u2 \<le> 2 ^ 98"
      "1 / 2 ^ 199 \<le> u3" "u3 \<le> 2 ^ 98"
    using u(6-11) by simp_all
  consider "plan = first" | "plan = normalizeAllocations (cappedAllocations first limits)"
    using generateAdjustedAllocations_cases [of first limits] by (auto simp add: plan first_def)
  then show ?thesis
  proof cases
    case 1
    have "0 < u1" "0 < u2" "0 < u3" using bu by (simp_all add: less_le_trans [rotated])
    then show ?thesis using u(1-5) within_tolerance [OF u(4,5)] unfolding 1 by simp
  next
    case 2
    define m where "m = (if c < u1 then c else u1)"
    have t: "IncomePie.total (incomePie (cappedAllocations first limits)) = Fin m"
        "ShortTermTreasury.total (shortTermTreasury (cappedAllocations first limits)) = Fin u2"
        "TreasuryETF.total (treasuryETF (cappedAllocations first limits)) = Fin u3"
      using cap(1) by (simp_all add: cappedAllocations_def u Math_min_def m_def)
    have bm: "1 / 2 ^ 199 \<le> m" "m \<le> 2 ^ 98"
      using bu cap(2,3) by (auto simp add: m_def)
    have lo2: "(1::real) / 2 ^ 200 \<le> 1 / 2 ^ 199" by simp
    obtain x y z W where w:
        "IncomePie.total (incomePie plan) = Fin x"
        "ShortTermTreasury.total (shortTermTreasury plan) = Fin y"
        "TreasuryETF.total (treasuryETF plan) = Fin z"
        "totalAllocation plan = Fin W"
        "\<not> num_gt (Math_abs (num_sub (Fin W) (Fin 1))) (dbl 0.001)"
        "min (1 / 2 ^ 199) (1 / 2 ^ 199 / (8 * 2 ^ 98)) \<le> x"
        "min (1 / 2 ^ 199) (1 / 2 ^ 199 / (8 * 2 ^ 98)) \<le> y"
        "min (1 / 2 ^ 199) (1 / 2 ^ 199 / (8 * 2 ^ 98)) \<le> z"
      using normalizeAllocations_ordinary [OF t lo2 hi1 bm bu(3-6)] unfolding 2 by blast
    have "0 < x" "0 < y" "0 < z" using w(6-8) by (simp_all add: less_le_trans [rotated])
    then show ?thesis using w(1-3) within_tolerance [OF w(4,5)] by simp
  qed
qed

theorem allocation_totals_sum_to_one_witness:
  "num_gt (Math_abs (num_sub (totalAllocation (presetAllocations (Fin 15) None None)) (Fin 1)))
          (dbl 0.001)
   \<and> (\<exists>x y z.
         IncomePie.total (incomePie (generateAdjustedAllocations
            (calculateAllocations (Fin 15) None None) None)) = Fin x
       \<and> ShortTermTreasury.total (shortTermTreasury (generateAdjustedAllocations
            (calculateAllocations (Fin 15) None None) None)) = Fin y
       \<and> TreasuryETF.total (treasuryETF (generateAdjustedAllocations
            (calculateAllocations (Fin 15) None None) None)) = Fin z
       \<and> 0 < x \<and> 0 < y \<and> 0 < z
       \<and> num_le (Math_abs (num_sub (totalAllocation (generateAdjustedAllocations
            (calculateAllocations (Fin 15) None None) None)) (Fin 1))) (dbl 0.001))"
proof -
  have p: "presetAllocations (Fin 15) None None =
     \<lparr> incomePie = \<lparr> IncomePie.total = Fin (1 / 4), FEPI = dbl 0.35, SDTY = dbl 0.35, QQQY = dbl 0.30 \<rparr>,
       shortTermTreasury = \<lparr> ShortTermTreasury.total = Fin (3602879701896397 / 18014398509481984), SHY = Fin 1 \<rparr>,
       treasuryETF = \<lparr> TreasuryETF.total = Fin (3602879701896397 / 18014398509481984), EDV = Fin 1 \<rparr>,
       note' = None \<rparr>"
    by (simp add: presetAllocations_def baseAllocations_def currentAllocations_def exceedsCombined_def
          num_gt_def Math_min_def dbl_values)
  have s: "num_gt (Math_abs (num_sub (totalAllocation (presetAllocations (Fin 15) None None)) (Fin 1)))
          (dbl 0.001)"
    unfolding p by (simp add: totalAllocation_def num_sub_def num_gt_def dbl_values fl_eval)
  show ?thesis
    using s allocation_totals_sum_to_one [of _ "Fin 15" None None "1 / 4"
        "3602879701896397 / 18014398509481984" "3602879701896397 / 18014398509481984" "1 / 4"]
    unfolding p by simp
qed

subsection \<open>The second pass and the per-symbol cap\<close>

text \<open>
  C2, evaluated at a VIX of 35 with no holdings and no position limits (so the caps are
  the defaults, 0.05 per symbol and 0.25 combined). The second pass returns an income
  pie of 0.25 with the sub-weights 0.33, 0.33 and 0.34: the three option-ETF allocations
  are \<open>0.25 * 0.33\<close>, \<open>0.25 * 0.33\<close> and \<open>0.25 * 0.34\<close> (the binary64 values next to
  0.0825 and 0.085), each above the per-symbol cap of 0.05 that the plan's own note names.
\<close>

theorem adjusted_allocation_exceeds_single_cap:
  "generateAdjustedAllocations (calculateAllocations (Fin 35) None None) None =
      \<lparr> incomePie = \<lparr> IncomePie.total = Fin 0.25, FEPI = dbl 0.33, SDTY = dbl 0.33, QQQY = dbl 0.34 \<rparr>,
        shortTermTreasury = \<lparr> ShortTermTreasury.total = Fin 0.375, SHY = Fin 1 \<rparr>,
        treasuryETF = \<lparr> TreasuryETF.total = Fin 0.375, EDV = Fin 1 \<rparr>,
        note' = Some ''Adjusted to respect position limits: 5% max per option ETF, 25% max combined'' \<rparr>
   \<and> num_or (Option.bind None maxSingleOptionETF) (dbl 0.05) = dbl 0.05
   \<and> num_mul (Fin 0.25) (dbl 0.33) = Fin (5944751508129055 / 72057594037927936)
   \<and> num_mul (Fin 0.25) (dbl 0.34) = Fin (6124895493223875 / 72057594037927936)
   \<and> num_gt (num_mul (Fin 0.25) (dbl 0.33)) (dbl 0.05)
   \<and> num_gt (num_mul (Fin 0.25) (dbl 0.34)) (dbl 0.05)"
  by (simp add: alloc_defs dbl_values fl_eval)

subsection \<open>High VIX caps the income pie\<close>

text \<open>
  The high-VIX preset for a cap \<open>c\<close> is \<open>c\<close>, \<open>(1 - c) * 0.5\<close>, \<open>(1 - c) * 0.5\<close>. For
  a cap of at most \<open>2^39\<close> in absolute value the four roundings move the sum of the three
  totals away from 1 by at most \<open>2^-12\<close>, so the preset is not rescaled.
\<close>

lemma highVix_sum:
  assumes "\<bar>c\<bar> \<le> 2 ^ 39"
  shows "\<exists>h s. num_mul (num_sub (Fin 1) (Fin c)) (Fin 0.5) = Fin h
           \<and> num_add (num_add (Fin c) (Fin h)) (Fin h) = Fin s
           \<and> \<not> num_gt (Math_abs (num_sub (Fin s) (Fin 1))) (dbl 0.001)"
proof -
  have c: "\<bar>c\<bar> \<le> 549755813888" using assms by simp
  have p: "2 * pow2 39 = 1099511627776" "pow2 (39 - 53) = 1 / 16384"
      "2 * pow2 38 = 549755813888" "pow2 (38 - 53) = 1 / 32768"
      "2 * pow2 1 = 4" "pow2 (1 - 53) = 1 / 4503599627370496"
      "2 * pow2 (- 11) = 1 / 1024" "pow2 (- 11 - 53) = 1 / 18446744073709551616"
    by (simp_all add: pow2_def)
  have "\<bar>1 - c\<bar> < 2 * pow2 39" unfolding p using c by linarith
  then obtain a where a: "fl (1 - c) = Fin a" "\<bar>a - (1 - c)\<bar> \<le> 1 / 16384"
    using fl_abs_err [of "1 - c" 39] unfolding p by auto
  have "\<bar>a / 2\<bar> < 2 * pow2 38" unfolding p using a(2) c by linarith
  then obtain h where h: "fl (a / 2) = Fin h" "\<bar>h - a / 2\<bar> \<le> 1 / 32768"
    using fl_abs_err [of "a / 2" 38] unfolding p by auto
  have "\<bar>c + h\<bar> < 2 * pow2 39" unfolding p using h(2) a(2) c by linarith
  then obtain s1 where s1: "fl (c + h) = Fin s1" "\<bar>s1 - (c + h)\<bar> \<le> 1 / 16384"
    using fl_abs_err [of "c + h" 39] unfolding p by auto
  have "\<bar>s1 + h\<bar> < 2 * pow2 1" unfolding p using s1(2) h(2) a(2) by linarith
  then obtain s where s: "fl (s1 + h) = Fin s" "\<bar>s - (s1 + h)\<bar> \<le> 1 / 4503599627370496"
    using fl_abs_err [of "s1 + h" 1] unfolding p by auto
  have near: "\<bar>s - 1\<bar> \<le> 1 / 4096"
    using s(2) s1(2) h(2) a(2) by linarith
  then have "\<bar>s - 1\<bar> < 2 * pow2 (- 11)" unfolding p by linarith
  then obtain d where d: "fl (s - 1) = Fin d" "\<bar>d - (s - 1)\<bar> \<le> 1 / 18446744073709551616"
    using fl_abs_err [of "s - 1" "- 11"] unfolding p by auto
  have "\<bar>d\<bar> \<le> 1152921504606847 / 1152921504606846976" using d(2) near by linarith
  then have "\<not> num_gt (Math_abs (num_sub (Fin s) (Fin 1))) (dbl 0.001)"
    by (simp add: num_sub_Fin d(1) dbl_0_001 num_gt_def)
  moreover have "num_mul (num_sub (Fin 1) (Fin c)) (Fin 0.5) = Fin h"
    using h(1) by (simp add: num_sub_Fin a(1))
  moreover have "num_add (num_add (Fin c) (Fin h)) (Fin h) = Fin s"
    by (simp add: s1(1) s(1))
  ultimately show ?thesis by blast
qed

lemma highVix_within:
  assumes "mc = PInf \<or> mc = NInf \<or> (\<exists>c. mc = Fin c \<and> \<bar>c\<bar> \<le> 2 ^ 39)"
  shows "\<not> num_gt (Math_abs (num_sub (totalAllocation (highVixAllocations mc)) (Fin 1))) (dbl 0.001)"
proof -
  consider "mc = PInf" | "mc = NInf" | c where "mc = Fin c" "\<bar>c\<bar> \<le> 2 ^ 39"
    using assms by blast
  then show ?thesis
  proof cases
    case 1
    then show ?thesis
      by (simp add: highVixAllocations_def totalAllocation_def num_sub_def num_gt_def)
  next
    case 2
    then show ?thesis
      by (simp add: highVixAllocations_def totalAllocation_def num_sub_def num_gt_def)
  next
    case 3
    obtain h s where "num_mul (num_sub (Fin 1) (Fin c)) (Fin 0.5) = Fin h"
        "num_add (num_add (Fin c) (Fin h)) (Fin h) = Fin s"
        "\<not> num_gt (Math_abs (num_sub (Fin s) (Fin 1))) (dbl 0.001)"
      using highVix_sum [OF 3(2)] by blast
    then show ?thesis
      by (simp add: highVixAllocations_def totalAllocation_def 3(1))
  qed
qed

lemma highVix_unscaled:
  assumes "mc = PInf \<or> mc = NInf \<or> (\<exists>c. mc = Fin c \<and> \<bar>c\<bar> \<le> 2 ^ 39)"
  shows "normalizeAllocations (highVixAllocations mc) = highVixAllocations mc"
  using highVix_within [OF assms] by (simp add: normalizeAllocations_def)

lemma capped_highVix:
  assumes "mc = PInf \<or> mc = NInf \<or> (\<exists>c. mc = Fin c \<and> \<bar>c\<bar> \<le> 2 ^ 39)"
    and "mc = num_or (Option.bind limits maxCombinedOptionETFs) (Fin 0.25)"
  shows "IncomePie.total (incomePie (generateAdjustedAllocations (highVixAllocations mc) limits)) = mc"
proof -
  have nn: "mc \<noteq> NaN" using assms(1) by auto
  have m: "Math_min mc mc = mc" using nn by (cases mc) (simp_all add: Math_min_def)
  have eq: "num_or (Option.bind limits maxCombinedOptionETFs) (Fin (1 / 4)) = mc"
    using assms(2) by simp
  have tot: "totalAllocation (cappedAllocations (highVixAllocations mc) limits) = totalAllocation (highVixAllocations mc)"
    by (simp add: cappedAllocations_def totalAllocation_def eq m highVixAllocations_def)
  have "normalizeAllocations (cappedAllocations (highVixAllocations mc) limits) = cappedAllocations (highVixAllocations mc) limits"
    using highVix_within [OF assms(1)] by (simp add: normalizeAllocations_def tot)
  moreover have "IncomePie.total (incomePie (cappedAllocations (highVixAllocations mc) limits)) = mc"
    by (simp add: cappedAllocations_def eq m highVixAllocations_def)
  moreover have "IncomePie.total (incomePie (highVixAllocations mc)) = mc"
    by (simp add: highVixAllocations_def)
  ultimately show ?thesis
    using generateAdjustedAllocations_cases [of "highVixAllocations mc" limits] by auto
qed

lemma negativeCap_first:
  "calculateAllocations (Fin 35) None (Some negativeCapLimits) =
     \<lparr> incomePie = \<lparr> IncomePie.total = Fin (- 4503599627370497), FEPI = dbl 0.40, SDTY = dbl 0.35, QQQY = Fin 0.25 \<rparr>,
       shortTermTreasury = \<lparr> ShortTermTreasury.total = Fin 2251799813685249, SHY = Fin 1 \<rparr>,
       treasuryETF = \<lparr> TreasuryETF.total = Fin 2251799813685249, EDV = Fin 1 \<rparr>,
       note' = None \<rparr>"
  by (simp add: alloc_defs negativeCapLimits_def dbl_values fl_eval)

text \<open>
  C3, as stated, fails. With a VIX of 35 and \<open>maxCombinedOptionETFs = -9007199254740994\<close>
  the difference \<open>1 - cap\<close> is 9007199254740995, which is not a binary64 value and rounds
  to 9007199254740996: the preset sums to 2 and is rescaled by 0.5. The second pass caps
  the income pie at the cap again; the totals now sum to \<open>-2^52\<close> and are rescaled once
  more. The plan returned has \<open>incomePie.total = 2.0000000000000004\<close>, which is greater
  than the cap.
\<close>

theorem negative_cap_exceeded:
  "num_gt (Fin 35) (Fin 30)
   \<and> num_or (Option.bind (Some negativeCapLimits) maxCombinedOptionETFs) (Fin 0.25)
       = Fin (- 9007199254740994)
   \<and> IncomePie.total (incomePie (generateAdjustedAllocations
         (calculateAllocations (Fin 35) None (Some negativeCapLimits)) (Some negativeCapLimits)))
       = Fin (4503599627370497 / 2251799813685248)
   \<and> \<not> num_le (Fin (4503599627370497 / 2251799813685248)) (Fin (- 9007199254740994))"
  unfolding negativeCap_first
  by (simp add: generateAdjustedAllocations_def normalizeAllocations_def totalAllocation_def
        num_gt_def num_le_def num_sub_def Math_min_def truthy_def Let_def
        negativeCapLimits_def dbl_values fl_eval)

text \<open>
  C3, amended. For every input with a VIX level strictly greater than 30 whose combined cap
  in force (the configured \<open>maxCombinedOptionETFs\<close>, or 0.25 when that is missing, zero
  or \<open>NaN\<close>) is infinite or at most \<open>2^39\<close> in absolute value, the plan returned by
  \<open>calculateAllocations\<close>, and the plan returned by \<open>generateAdjustedAllocations\<close>
  after it, have \<open>incomePie.total\<close> equal to that cap, hence less than or equal to it.
  This holds for every holdings list.
\<close>

theorem high_vix_income_total_capped:
  assumes "num_gt v (Fin 30)"
    and "mc = num_or (Option.bind limits maxCombinedOptionETFs) (Fin 0.25)"
    and "mc = PInf \<or> mc = NInf \<or> (\<exists>c. mc = Fin c \<and> \<bar>c\<bar> \<le> 2 ^ 39)"
  shows "IncomePie.total (incomePie (calculateAllocations v actual limits)) = mc
       \<and> IncomePie.total (incomePie
            (generateAdjustedAllocations (calculateAllocations v actual limits) limits)) = mc
       \<and> num_le (IncomePie.total (incomePie
            (generateAdjustedAllocations (calculateAllocations v actual limits) limits))) mc"
proof -
  have eq: "num_or (Option.bind limits maxCombinedOptionETFs) (Fin (1 / 4)) = mc"
    using assms(2) by simp
  have c: "calculateAllocations v actual limits = highVixAllocations mc"
    using assms(1) highVix_unscaled [OF assms(3)]
    by (simp add: calculateAllocations_def Let_def eq)
  have nn: "mc \<noteq> NaN" using assms(3) by auto
  have le: "num_le mc mc" using nn by (cases mc) (simp_all add: num_le_def)
  show ?thesis
    unfolding c capped_highVix [OF assms(3,2)] using le by (simp add: highVixAllocations_def)
qed

theorem high_vix_income_total_capped_witness:
  "num_gt (Fin 35) (Fin 30)
   \<and> num_or (Option.bind (Some tightLimits) maxCombinedOptionETFs) (Fin 0.25) = dbl 0.20
   \<and> IncomePie.total (incomePie (generateAdjustedAllocations
         (calculateAllocations (Fin 35) None (Some tightLimits)) (Some tightLimits))) = dbl 0.20
   \<and> num_le (IncomePie.total (incomePie (generateAdjustedAllocations
         (calculateAllocations (Fin 35) None (Some tightLimits)) (Some tightLimits)))) (dbl 0.20)"
proof -
  have cap: "dbl 0.20 = num_or (Option.bind (Some tightLimits) maxCombinedOptionETFs) (Fin 0.25)"
    by (simp add: tightLimits_def dbl_values truthy_def)
  have ordinary: "dbl 0.20 = PInf \<or> dbl 0.20 = NInf \<or> (\<exists>c. dbl 0.20 = Fin c \<and> \<bar>c\<bar> \<le> 2 ^ 39)"
    using dbl_0_2 by (intro disjI2 exI [of _ "3602879701896397 / 18014398509481984"]) simp
  have high: "num_gt (Fin 35) (Fin 30)" by (simp add: num_gt_def)
  show ?thesis
    using high_vix_income_total_capped [OF high cap ordinary, of None] high cap [symmetric]
    by blast
qed

subsection \<open>Preset selection and renormalisation\<close>

lemma nearOne_plan:
  "calculateAllocations (Fin 15) (Some nearOneHoldings) (Some wideLimits) =
    \<lparr> incomePie = \<lparr> IncomePie.total = Fin 0.5, FEPI = dbl 0.35, SDTY = dbl 0.35, QQQY = dbl 0.30 \<rparr>,
      shortTermTreasury = \<lparr> ShortTermTreasury.total = Fin 0.25, SHY = Fin 1 \<rparr>,
      treasuryETF = \<lparr> TreasuryETF.total = Fin (513 / 2048), EDV = Fin 1 \<rparr>,
      note' = None \<rparr>"
  by (simp add: alloc_defs sym_defs nearOneHoldings_def wideLimits_def dbl_values fl_eval)

text \<open>
  C4, as stated, fails: the totals need not sum to exactly 1.0. With holdings of 0.5 in
  FEPI, 0.25 in SHY and 513/2048 in EDV, a VIX of 15 and no limit exceeded, the base preset
  sums to 2049/2048, which is within the tolerance; it is returned unscaled, by
  \<open>calculateAllocations\<close> and by the second pass alike.
\<close>

theorem totals_not_exactly_one:
  "totalAllocation (calculateAllocations (Fin 15) (Some nearOneHoldings) (Some wideLimits))
     = Fin (2049 / 2048)
   \<and> totalAllocation (generateAdjustedAllocations
        (calculateAllocations (Fin 15) (Some nearOneHoldings) (Some wideLimits)) (Some wideLimits))
     = Fin (2049 / 2048)
   \<and> Fin (2049 / 2048) \<noteq> Fin 1"
  by (simp add: nearOne_plan) (simp add: alloc_defs wideLimits_def dbl_values fl_eval)

text \<open>
  C4, amended. \<open>calculateAllocations\<close> returns one of four presets, passed through
  \<open>normalizeAllocations\<close>: the high-VIX preset when VIX > 30, else the mid-VIX preset
  when VIX > 25, else the limit preset when the combined limit is flagged as exceeded,
  else the base preset built from the holdings. When the sum of the preset's totals, added
  in binary64 arithmetic, is off from 1.0 by more than 0.001, each total is multiplied by
  \<open>1 / sum\<close>; otherwise the preset is returned unchanged. Either way, when the three
  totals of the preset are numbers between \<open>2^-200\<close> and \<open>2^200\<close>, the totals returned
  sum to 1.0 within 0.001; they need not sum to exactly 1.0.
\<close>

theorem calculateAllocations_preset_normalized:
  "let maxCombined = num_or (Option.bind limits maxCombinedOptionETFs) (Fin 0.25);
       idealIncomePie = num_or (Option.bind limits idealIncomePieAllocation) (dbl 0.60);
       preset = (if num_gt v (Fin 30) then highVixAllocations maxCombined
                 else if num_gt v (Fin 25) then midVixAllocations maxCombined
                 else if exceedsCombined actual then limitAllocations maxCombined
                 else baseAllocations (currentAllocations actual) idealIncomePie maxCombined);
       scaled = num_gt (Math_abs (num_sub (totalAllocation preset) (Fin 1))) (dbl 0.001);
       factor = num_div (Fin 1) (totalAllocation preset);
       result = calculateAllocations v actual limits
   in result = normalizeAllocations preset
      \<and> (scaled \<longrightarrow>
            IncomePie.total (incomePie result) = num_mul (IncomePie.total (incomePie preset)) factor
          \<and> ShortTermTreasury.total (shortTermTreasury result)
              = num_mul (ShortTermTreasury.total (shortTermTreasury preset)) factor
          \<and> TreasuryETF.total (treasuryETF result)
              = num_mul (TreasuryETF.total (treasuryETF preset)) factor)
      \<and> (\<not> scaled \<longrightarrow> result = preset)
      \<and> (\<forall>t1 t2 t3.
            IncomePie.total (incomePie preset) = Fin t1
          \<and> ShortTermTreasury.total (shortTermTreasury preset) = Fin t2
          \<and> TreasuryETF.total (treasuryETF preset) = Fin t3
          \<and> 1 / 2 ^ 200 \<le> t1 \<and> t1 \<le> 2 ^ 200 \<and> 1 / 2 ^ 200 \<le> t2 \<and> t2 \<le> 2 ^ 200
          \<and> 1 / 2 ^ 200 \<le> t3 \<and> t3 \<le> 2 ^ 200
          \<longrightarrow> num_le (Math_abs (num_sub (totalAllocation result) (Fin 1))) (dbl 0.001))"
proof -
  define preset where "preset = presetAllocations v actual limits"
  define result where "result = calculateAllocations v actual limits"
  have r: "result = normalizeAllocations preset"
    by (simp add: result_def preset_def calculateAllocations_preset)
  have sc: "IncomePie.total (incomePie result)
              = num_mul (IncomePie.total (incomePie preset)) (num_div (Fin 1) (totalAllocation preset))
          \<and> ShortTermTreasury.total (shortTermTreasury result)
              = num_mul (ShortTermTreasury.total (shortTermTreasury preset)) (num_div (Fin 1) (totalAllocation preset))
          \<and> TreasuryETF.total (treasuryETF result)
              = num_mul (TreasuryETF.total (treasuryETF preset)) (num_div (Fin 1) (totalAllocation preset))"
    if "num_gt (Math_abs (num_sub (totalAllocation preset) (Fin 1))) (dbl 0.001)"
    using that by (simp add: r normalizeAllocations_def Let_def)
  have un: "result = preset"
    if "\<not> num_gt (Math_abs (num_sub (totalAllocation preset) (Fin 1))) (dbl 0.001)"
    using that by (simp add: r normalizeAllocations_def)
  have near: "num_le (Math_abs (num_sub (totalAllocation result) (Fin 1))) (dbl 0.001)"
    if h: "IncomePie.total (incomePie preset) = Fin t1"
      "ShortTermTreasury.total (shortTermTreasury preset) = Fin t2"
      "TreasuryETF.total (treasuryETF preset) = Fin t3"
      "1 / 2 ^ 200 \<le> t1" "t1 \<le> 2 ^ 200" "1 / 2 ^ 200 \<le> t2" "t2 \<le> 2 ^ 200"
      "1 / 2 ^ 200 \<le> t3" "t3 \<le> 2 ^ 200" for t1 t2 t3
  proof -
    obtain U where "totalAllocation result = Fin U"
        "\<not> num_gt (Math_abs (num_sub (Fin U) (Fin 1))) (dbl 0.001)"
      using normalizeAllocations_ordinary [OF h(1-3), of "1 / 2 ^ 200" "2 ^ 200"] h(4-9)
      unfolding r by auto
    then show ?thesis by (rule within_tolerance)
  qed
  from r sc un near show ?thesis
    unfolding Let_def preset_def [unfolded presetAllocations_def Let_def, symmetric]
      result_def [symmetric]
    by blast
qed

theorem calculateAllocations_preset_normalized_witness:
  "num_gt (Math_abs (num_sub (totalAllocation
       (baseAllocations (currentAllocations None) (dbl 0.60) (Fin 0.25))) (Fin 1))) (dbl 0.001)
   \<and> IncomePie.total (incomePie (calculateAllocations (Fin 15) None None))
       = num_mul (IncomePie.total (incomePie (baseAllocations (currentAllocations None) (dbl 0.60) (Fin 0.25))))
           (num_div (Fin 1) (totalAllocation
              (baseAllocations (currentAllocations None) (dbl 0.60) (Fin 0.25))))
   \<and> num_le (Math_abs (num_sub (totalAllocation (calculateAllocations (Fin 15) None None)) (Fin 1)))
        (dbl 0.001)
   \<and> \<not> num_gt (Math_abs (num_sub (totalAllocation
       (baseAllocations (currentAllocations (Some nearOneHoldings)) (dbl 0.60) (Fin 0.5))) (Fin 1))) (dbl 0.001)
   \<and> calculateAllocations (Fin 15) (Some nearOneHoldings) (Some wideLimits)
       = baseAllocations (currentAllocations (Some nearOneHoldings)) (dbl 0.60) (Fin 0.5)"
proof -
  let ?base = "baseAllocations (currentAllocations None) (dbl 0.60) (Fin 0.25)"
  let ?near = "baseAllocations (currentAllocations (Some nearOneHoldings)) (dbl 0.60) (Fin 0.5)"
  have a: "num_gt (Math_abs (num_sub (totalAllocation ?base) (Fin 1))) (dbl 0.001)"
    by (simp add: alloc_defs dbl_values fl_eval)
  have t: "IncomePie.total (incomePie ?base) = Fin (1 / 4)"
      "ShortTermTreasury.total (shortTermTreasury ?base) = Fin (3602879701896397 / 18014398509481984)"
      "TreasuryETF.total (treasuryETF ?base) = Fin (3602879701896397 / 18014398509481984)"
    by (simp_all add: alloc_defs dbl_values)
  have c: "\<not> num_gt (Math_abs (num_sub (totalAllocation ?near) (Fin 1))) (dbl 0.001)"
    by (simp add: alloc_defs sym_defs nearOneHoldings_def dbl_values fl_eval)
  have d: "\<not> num_gt (Fin 15) (Fin 30)" "\<not> num_gt (Fin 15) (Fin 25)"
    "\<not> exceedsCombined None" "\<not> exceedsCombined (Some nearOneHoldings)"
    by (simp_all add: num_gt_def exceedsCombined_def nearOneHoldings_def)
  have w: "num_or (Option.bind (Some wideLimits) maxCombinedOptionETFs) (Fin 0.25) = Fin 0.5"
    "num_or (Option.bind (Some wideLimits) idealIncomePieAllocation) (dbl 0.60) = dbl 0.60"
    by (simp_all add: wideLimits_def truthy_def)
  have first: "(num_gt (Math_abs (num_sub (totalAllocation ?base) (Fin 1))) (dbl 0.001) \<longrightarrow>
          IncomePie.total (incomePie (calculateAllocations (Fin 15) None None))
            = num_mul (IncomePie.total (incomePie ?base)) (num_div (Fin 1) (totalAllocation ?base)))
      \<and> (\<forall>t1 t2 t3.
            IncomePie.total (incomePie ?base) = Fin t1
          \<and> ShortTermTreasury.total (shortTermTreasury ?base) = Fin t2
          \<and> TreasuryETF.total (treasuryETF ?base) = Fin t3
          \<and> 1 / 2 ^ 200 \<le> t1 \<and> t1 \<le> 2 ^ 200 \<and> 1 / 2 ^ 200 \<le> t2 \<and> t2 \<le> 2 ^ 200
          \<and> 1 / 2 ^ 200 \<le> t3 \<and> t3 \<le> 2 ^ 200
          \<longrightarrow> num_le (Math_abs (num_sub (totalAllocation (calculateAllocations (Fin 15) None None)) (Fin 1)))
                (dbl 0.001))"
    using calculateAllocations_preset_normalized
         [where v = "Fin 15" and actual = None and limits = None]
    by (simp only: Let_def d if_False num_or.simps Option.bind.simps) metis
  have b: "(1::real) / 2 ^ 200 \<le> 1 / 4" "(1::real) / 4 \<le> 2 ^ 200"
      "(1::real) / 2 ^ 200 \<le> 3602879701896397 / 18014398509481984"
      "(3602879701896397::real) / 18014398509481984 \<le> 2 ^ 200"
    by simp_all
  have near: "num_le (Math_abs (num_sub (totalAllocation (calculateAllocations (Fin 15) None None)) (Fin 1)))
                (dbl 0.001)"
    using first [THEN conjunct2, rule_format, of "1 / 4" "3602879701896397 / 18014398509481984"
        "3602879701896397 / 18014398509481984"] t b by blast
  have "\<not> num_gt (Math_abs (num_sub (totalAllocation ?near) (Fin 1))) (dbl 0.001)
         \<longrightarrow> calculateAllocations (Fin 15) (Some nearOneHoldings) (Some wideLimits) = ?near"
    using calculateAllocations_preset_normalized
         [where v = "Fin 15" and actual = "Some nearOneHoldings"
            and limits = "Some wideLimits"]
    by (simp only: Let_def d if_False w) metis
  with c have same: "calculateAllocations (Fin 15) (Some nearOneHoldings) (Some wideLimits) = ?near"
    by simp
  from a c first near same show ?thesis by blast
qed

section \<open>Properties of the report composer\<close>

subsection \<open>The dominant action\<close>

text \<open>
  Sums and quotients of numbers that are not negative are not negative, and in
  particular not \<open>NaN\<close>: for positive finite convictions, no weight that
  \<open>getRecommendation\<close> accumulates is \<open>NaN\<close>.
\<close>

lemma roundEven_nonneg: "0 \<le> q \<Longrightarrow> 0 \<le> roundEven q"
  using roundEven_ge [of 0 q] by simp

lemma fl_nonneg:
  assumes "0 \<le> x"
  shows "num_le (Fin 0) (fl x)"
proof (cases "x = 0")
  case True
  then show ?thesis by (simp add: num_le_def)
next
  case False
  have "0 \<le> x / pow2 (exponent \<bar>x\<bar> - 52)" using assms by simp
  then have "0 \<le> roundEven (x / pow2 (exponent \<bar>x\<bar> - 52))" by (rule roundEven_nonneg)
  then have "0 \<le> real_of_int (roundEven (x / pow2 (exponent \<bar>x\<bar> - 52))) * pow2 (exponent \<bar>x\<bar> - 52)"
    by simp
  then show ?thesis using False assms by (simp add: fl_def Let_def num_le_def)
qed

lemma add_nonneg:
  assumes "num_le (Fin 0) x" and "num_le (Fin 0) y"
  shows "num_le (Fin 0) (num_add x y)"
proof (cases x; cases y)
  fix a b assume "x = Fin a" "y = Fin b"
  with assms show ?thesis using fl_nonneg [of "a + b"] by (simp add: num_le_def)
qed (use assms in \<open>simp_all add: num_le_def\<close>)

lemma div_nonneg:
  assumes "0 < c" and "num_le (Fin 0) t"
  shows "num_le (Fin 0) (num_div (Fin c) t)"
proof (cases t)
  case (Fin y)
  with assms show ?thesis using fl_nonneg [of "c / y"] by (simp add: num_le_def)
qed (use assms in \<open>simp_all add: num_le_def\<close>)

lemma nonneg_not_NaN: "num_le (Fin 0) x \<Longrightarrow> x \<noteq> NaN"
  by (simp add: num_le_def)

lemma totalConviction_nonneg:
  assumes "\<forall>r \<in> set rs. \<exists>c. conviction r = Fin c \<and> 0 < c" and "num_le (Fin 0) s"
  shows "num_le (Fin 0) (foldl (\<lambda>sum rec. num_add sum (conviction rec)) s rs)"
  using assms
proof (induction rs arbitrary: s)
  case Nil
  then show ?case by simp
next
  case (Cons r rs)
  then obtain c where c: "conviction r = Fin c" "0 < c" by auto
  then have "num_le (Fin 0) (conviction r)" by (simp add: num_le_def)
  with Cons.prems(2) have "num_le (Fin 0) (num_add s (conviction r))" by (rule add_nonneg)
  with Cons show ?case by simp
qed

lemma weightedAction_nonneg:
  assumes "\<forall>r \<in> set rs. \<exists>c. conviction r = Fin c \<and> 0 < c" and "num_le (Fin 0) t"
    and "num_le (Fin 0) (BUY acc)" "num_le (Fin 0) (SELL acc)" "num_le (Fin 0) (HOLD acc)"
  shows "num_le (Fin 0) (BUY (foldl (\<lambda>acc rec.
              let weight = num_div (conviction rec) t in
              \<lparr> BUY = num_add (BUY acc) (if action rec = ''BUY'' then weight else Fin 0),
                SELL = num_add (SELL acc) (if action rec = ''SELL'' then weight else Fin 0),
                HOLD = num_add (HOLD acc) (if action rec = ''HOLD'' then weight else Fin 0) \<rparr>) acc rs))
       \<and> num_le (Fin 0) (SELL (foldl (\<lambda>acc rec.
              let weight = num_div (conviction rec) t in
              \<lparr> BUY = num_add (BUY acc) (if action rec = ''BUY'' then weight else Fin 0),
                SELL = num_add (SELL acc) (if action rec = ''SELL'' then weight else Fin 0),
                HOLD = num_add (HOLD acc) (if action rec = ''HOLD'' then weight else Fin 0) \<rparr>) acc rs))
       \<and> num_le (Fin 0) (HOLD (foldl (\<lambda>acc rec.
              let weight = num_div (conviction rec) t in
              \<lparr> BUY = num_add (BUY acc) (if action rec = ''BUY'' then weight else Fin 0),
                SELL = num_add (SELL acc) (if action rec = ''SELL'' then weight else Fin 0),
                HOLD = num_add (HOLD acc) (if action rec = ''HOLD'' then weight else Fin 0) \<rparr>) acc rs))"
  using assms(1,3-5)
proof (induction rs arbitrary: acc)
  case Nil
  then show ?case by simp
next
  case (Cons r rs)
  then obtain c where c: "conviction r = Fin c" "0 < c" by auto
  have w: "num_le (Fin 0) (num_div (conviction r) t)"
    unfolding c(1) using c(2) assms(2) by (rule div_nonneg)
  have z: "num_le (Fin 0) (Fin 0)" by (simp add: num_le_def)
  have step: "num_le (Fin 0) (num_add x (if b then num_div (conviction r) t else Fin 0))"
    if "num_le (Fin 0) x" for x b
    using that w z by (cases b) (simp_all add: add_nonneg)
  from Cons.prems have rest: "\<forall>r \<in> set rs. \<exists>c. conviction r = Fin c \<and> 0 < c" by simp
  show ?case
    using Cons.IH [OF rest, of "\<lparr> BUY = num_add (BUY acc) (if action r = ''BUY'' then num_div (conviction r) t else Fin 0),
                SELL = num_add (SELL acc) (if action r = ''SELL'' then num_div (conviction r) t else Fin 0),
                HOLD = num_add (HOLD acc) (if action r = ''HOLD'' then num_div (conviction r) t else Fin 0) \<rparr>"]
      step [OF Cons.prems(2)] step [OF Cons.prems(3)] step [OF Cons.prems(4)]
    by (simp add: Let_def)
qed

lemma weights_not_NaN:
  assumes "\<forall>r \<in> set recs. \<exists>c. conviction r = Fin c \<and> 0 < c"
  shows "BUY (weightedAction recs) \<noteq> NaN \<and> SELL (weightedAction recs) \<noteq> NaN
       \<and> HOLD (weightedAction recs) \<noteq> NaN"
proof -
  have z: "num_le (Fin 0) (Fin 0)" by (simp add: num_le_def)
  have t: "num_le (Fin 0) (totalConviction recs)"
    unfolding totalConviction_def using assms z by (rule totalConviction_nonneg)
  show ?thesis
    using weightedAction_nonneg [OF assms t, of "\<lparr> BUY = Fin 0, SELL = Fin 0, HOLD = Fin 0 \<rparr>"] z
    by (simp add: weightedAction_def nonneg_not_NaN)
qed

lemma roundedRecs_weights:
  "weightedAction roundedRecs =
     \<lparr> BUY = Fin (1 / 2), SELL = Fin (9007199254740991 / 18014398509481984), HOLD = Fin 0 \<rparr>"
  by (simp add: weightedAction_def totalConviction_def roundedRecs_def Let_def fl_eval)

text \<open>
  C5, as stated, fails on ties. For a BUY and a SELL of conviction 5 each, in this order,
  both actions have the weight 0.5. The first-encountered of the tied actions is BUY (it
  comes first in the list and first among the keys of \<open>weightedAction\<close>); the code returns
  SELL, because \<open>reduce((a, b) => a[1] > b[1] ? a : b)\<close> keeps the later entry unless the
  earlier one is strictly greater.
\<close>

theorem tie_goes_to_later_action:
  "weightedAction tiedRecs = \<lparr> BUY = Fin 0.5, SELL = Fin 0.5, HOLD = Fin 0 \<rparr>
   \<and> dominantAction tiedRecs = Inr ''SELL''
   \<and> getRecommendation tiedRecs = Inr ''SELL (Conviction: 5/10)''"
  by (simp add: getRecommendation_def dominantAction_def entries_def weightedAction_def
        totalConviction_def tiedRecs_def num_gt_def Let_def fl_eval showNat.simps)

text \<open>
  C5, amended. The weight of an action is the number that the second \<open>reduce\<close> of
  \<open>getRecommendation\<close> accumulates for it: the sum, in binary64 arithmetic, of
  \<open>conviction / totalConviction\<close> over the recommendations with that action. When every
  conviction is a positive finite number, none of the three weights is \<open>NaN\<close>. When none
  of the three weights is \<open>NaN\<close>, the dominant action is an action whose weight no other
  weight exceeds, and among the actions of greatest weight it is the last in the order
  BUY, SELL, HOLD: BUY is returned only when its weight is greater than the other two,
  SELL only when its weight is greater than that of HOLD.
\<close>

theorem dominantAction_last_greatest:
  "((\<forall>r \<in> set recs. \<exists>c. conviction r = Fin c \<and> 0 < c)
      \<longrightarrow> BUY (weightedAction recs) \<noteq> NaN \<and> SELL (weightedAction recs) \<noteq> NaN
          \<and> HOLD (weightedAction recs) \<noteq> NaN)
   \<and> (BUY (weightedAction recs) \<noteq> NaN \<and> SELL (weightedAction recs) \<noteq> NaN
        \<and> HOLD (weightedAction recs) \<noteq> NaN
      \<longrightarrow> (\<exists>a wa. dominantAction recs = Inr a
           \<and> (a, wa) \<in> set (entries (weightedAction recs))
           \<and> num_le (BUY (weightedAction recs)) wa
           \<and> num_le (SELL (weightedAction recs)) wa
           \<and> num_le (HOLD (weightedAction recs)) wa
           \<and> (a = ''BUY'' \<longrightarrow> num_lt (SELL (weightedAction recs)) wa
                               \<and> num_lt (HOLD (weightedAction recs)) wa)
           \<and> (a = ''SELL'' \<longrightarrow> num_lt (HOLD (weightedAction recs)) wa)))"
proof -
  have "\<exists>a wa. dominantAction recs = Inr a
           \<and> (a, wa) \<in> set (entries (weightedAction recs))
           \<and> num_le (BUY (weightedAction recs)) wa
           \<and> num_le (SELL (weightedAction recs)) wa
           \<and> num_le (HOLD (weightedAction recs)) wa
           \<and> (a = ''BUY'' \<longrightarrow> num_lt (SELL (weightedAction recs)) wa
                               \<and> num_lt (HOLD (weightedAction recs)) wa)
           \<and> (a = ''SELL'' \<longrightarrow> num_lt (HOLD (weightedAction recs)) wa)"
    if "BUY (weightedAction recs) \<noteq> NaN" "SELL (weightedAction recs) \<noteq> NaN"
      "HOLD (weightedAction recs) \<noteq> NaN"
    using that
    by (cases "BUY (weightedAction recs)"; cases "SELL (weightedAction recs)";
        cases "HOLD (weightedAction recs)")
       (auto simp add: dominantAction_def entries_def num_gt_def num_le_def)
  then show ?thesis using weights_not_NaN [of recs] by blast
qed

theorem dominantAction_last_greatest_witness:
  "map conviction roundedRecs = [Fin 1, Fin 4, Fin 1, Fin 6]
   \<and> weightedAction roundedRecs =
       \<lparr> BUY = Fin (1 / 2), SELL = Fin (9007199254740991 / 18014398509481984), HOLD = Fin 0 \<rparr>
   \<and> BUY (weightedAction roundedRecs) \<noteq> NaN \<and> SELL (weightedAction roundedRecs) \<noteq> NaN
   \<and> HOLD (weightedAction roundedRecs) \<noteq> NaN
   \<and> dominantAction roundedRecs = Inr ''BUY''
   \<and> num_lt (SELL (weightedAction roundedRecs)) (BUY (weightedAction roundedRecs))
   \<and> num_lt (HOLD (weightedAction roundedRecs)) (BUY (weightedAction roundedRecs))"
proof -
  have c: "map conviction roundedRecs = [Fin 1, Fin 4, Fin 1, Fin 6]"
    by (simp add: roundedRecs_def)
  have p: "\<forall>r \<in> set roundedRecs. \<exists>c. conviction r = Fin c \<and> 0 < c"
    by (simp add: roundedRecs_def)
  note th = dominantAction_last_greatest [of roundedRecs]
  from th p have n: "BUY (weightedAction roundedRecs) \<noteq> NaN"
      "SELL (weightedAction roundedRecs) \<noteq> NaN" "HOLD (weightedAction roundedRecs) \<noteq> NaN"
    by blast+
  have d: "dominantAction roundedRecs = Inr ''BUY''"
    by (simp add: dominantAction_def entries_def roundedRecs_weights num_gt_def)
  obtain a wa where a: "dominantAction roundedRecs = Inr a"
      "(a, wa) \<in> set (entries (weightedAction roundedRecs))"
      "a = ''BUY'' \<longrightarrow> num_lt (SELL (weightedAction roundedRecs)) wa
                          \<and> num_lt (HOLD (weightedAction roundedRecs)) wa"
    using th n by blast
  from a(1) d have "a = ''BUY''" by simp
  moreover from this a(2) have "wa = BUY (weightedAction roundedRecs)"
    by (simp add: entries_def)
  ultimately show ?thesis using c n d a(3) roundedRecs_weights by simp
qed

section \<open>Exceptions and repeated runs of the two agents\<close>

subsection \<open>Missing inputs\<close>

text \<open>
  C6, evaluated. On the sample input \<open>analyze\<close> returns an output; on the same input
  without \<open>rotationSignals\<close> in the portfolio state it raises a TypeError, in
  \<open>getImplementationStrategy\<close>, although \<open>analyze\<close> itself and
  \<open>generateStrategyRecommendations\<close> guard that field. In general \<open>analyze\<close> raises
  exactly when the rotation signals or the holdings of the portfolio state are missing,
  and \<open>generateReport\<close> raises on every input with an empty stock-data list.
\<close>

theorem analyze_raises_on_missing_rotationSignals:
  "analyze missingSignalsInput = Inl TypeError
   \<and> (\<exists>out. analyze sampleInput = Inr out)
   \<and> ((analyze input = Inl TypeError)
        = (PortfolioState.rotationSignals (portfolioState input) = None
           \<or> PortfolioState.holdings (portfolioState input) = None))
   \<and> generateReport now (input \<lparr> stockData := [] \<rparr>) f t s m n = Inl TypeError"
proof -
  have "analyze missingSignalsInput = Inl TypeError"
    by (simp add: analyze_def Let_def generateDetailedAnalysis_def getImplementationStrategy_def
        missingSignalsInput_def sampleInput_def samplePortfolio_def)
  moreover have "(analyze input = Inl TypeError)
        = (PortfolioState.rotationSignals (portfolioState input) = None
           \<or> PortfolioState.holdings (portfolioState input) = None)"
    by (cases "PortfolioState.rotationSignals (portfolioState input)";
        cases "PortfolioState.holdings (portfolioState input)")
       (simp_all add: analyze_def Let_def generateDetailedAnalysis_def getImplementationStrategy_def
          identifyStrategyRisks_def)
  moreover have "generateReport now (input \<lparr> stockData := [] \<rparr>) f t s m n = Inl TypeError"
    by (simp add: generateReport_def lastOf_def)
  ultimately show ?thesis using sample_analyze by blast
qed

subsection \<open>Two runs of the report composer\<close>













section \<open>Properties of the summary agent\<close>

subsection \<open>The confidence score\<close>

lemma clamp_unit:
  assumes "y \<noteq> NaN"
  shows "\<exists>c. Math_max (Fin 0) (Math_min (Fin 1) y) = Fin c \<and> 0 \<le> c \<and> c \<le> 1"
  using assms by (cases y) (auto simp: Math_max_def Math_min_def)

lemma analyze_confidence:
  assumes "analyze input = Inr out"
  shows "AgentOutput.confidence out =
           calculateStrategyConfidence (vix (marketCondition (portfolioState input)))
             (PortfolioMetrics.sharpeRatio (PortfolioState.metrics (portfolioState input)))
             (calculateMarketMetrics input)"
  using assms unfolding analyze_def Let_def
  by (auto split: sum.splits)

lemma add_Fin_not_NaN: "x \<noteq> NaN \<Longrightarrow> num_add x (Fin b) \<noteq> NaN"
  by (cases x) simp_all

lemma sub_Fin_not_NaN: "x \<noteq> NaN \<Longrightarrow> num_sub x (Fin b) \<noteq> NaN"
  by (cases x) (simp_all add: num_sub_def)

text \<open>
  C8. For every VIX level, Sharpe ratio and market metrics (special values included),
  \<open>calculateStrategyConfidence\<close> returns a finite number in the closed interval
  [0, 1]: the score is built from constants and clamped by
  \<open>Math.max(0, Math.min(1, confidence))\<close>. Hence so is the \<open>confidence\<close> of every
  output that \<open>analyze\<close> returns.
\<close>

theorem calculateStrategyConfidence_unit_interval:
  "(\<exists>c. calculateStrategyConfidence v sharpe marketMetrics = Fin c \<and> 0 \<le> c \<and> c \<le> 1)
   \<and> (analyze input = Inr out \<longrightarrow> (\<exists>c. AgentOutput.confidence out = Fin c \<and> 0 \<le> c \<and> c \<le> 1))"
proof -
  have u: "\<exists>c. calculateStrategyConfidence v sharpe marketMetrics = Fin c \<and> 0 \<le> c \<and> c \<le> 1"
    for v sharpe marketMetrics
    unfolding calculateStrategyConfidence_def Let_def
    by (rule clamp_unit) (simp add: dbl_values add_Fin_not_NaN sub_Fin_not_NaN)
  show ?thesis
    using u analyze_confidence [of input out] by auto
qed

theorem calculateStrategyConfidence_unit_interval_witness:
  "\<exists>out. analyze sampleInput = Inr out
         \<and> (\<exists>c. AgentOutput.confidence out = Fin c \<and> 0 \<le> c \<and> c \<le> 1)"
proof -
  obtain out where out: "analyze sampleInput = Inr out"
    using sample_analyze by blast
  with calculateStrategyConfidence_unit_interval [of _ _ _ sampleInput out] show ?thesis
    by blast
qed

subsection \<open>The displayed percentages\<close>








section \<open>The frame of normalizeAllocations\<close>

text \<open>
  C10. \<open>normalizeAllocations\<close> changes nothing but the three bucket totals: the object
  after the call is the object before it with new values for \<open>incomePie.total\<close>,
  \<open>shortTermTreasury.total\<close> and \<open>treasuryETF.total\<close>, so every sub-weight (FEPI,
  SDTY, QQQY, SHY, EDV) and every other field is as before.
\<close>

theorem normalizeAllocations_frame:
  "\<exists>x y z. normalizeAllocations allocations =
     allocations
       \<lparr> incomePie := (incomePie allocations) \<lparr> IncomePie.total := x \<rparr>,
         shortTermTreasury := (shortTermTreasury allocations) \<lparr> ShortTermTreasury.total := y \<rparr>,
         treasuryETF := (treasuryETF allocations) \<lparr> TreasuryETF.total := z \<rparr> \<rparr>
     \<and> FEPI (incomePie (normalizeAllocations allocations)) = FEPI (incomePie allocations)
     \<and> SDTY (incomePie (normalizeAllocations allocations)) = SDTY (incomePie allocations)
     \<and> QQQY (incomePie (normalizeAllocations allocations)) = QQQY (incomePie allocations)
     \<and> SHY (shortTermTreasury (normalizeAllocations allocations)) = SHY (shortTermTreasury allocations)
     \<and> EDV (treasuryETF (normalizeAllocations allocations)) = EDV (treasuryETF allocations)
     \<and> note' (normalizeAllocations allocations) = note' allocations"
  apply (rule exI [of _ "IncomePie.total (incomePie (normalizeAllocations allocations))"])
  apply (rule exI [of _ "ShortTermTreasury.total (shortTermTreasury (normalizeAllocations allocations))"])
  apply (rule exI [of _ "TreasuryETF.total (treasuryETF (normalizeAllocations allocations))"])
  apply (simp add: normalizeAllocations_def Let_def)
  done

end
